theory Spec2Isabelle
  imports Complex_Main "HOL-Library.Word"
begin

section \<open>Data model\<close>

text \<open>
  The node \<^verbatim>\<open>navigation_collision_checker_node.cpp\<close> filters velocity commands: it
  rolls a command forward for a number of steps and publishes a zero command when one of
  the predicted poses collides with the planning scene.

  Numbers: a C++ \<^verbatim>\<open>double\<close> is modelled as a \<open>real\<close> (exact arithmetic, no
  rounding, no NaN or infinity); \<^verbatim>\<open>int\<close> is a \<open>32 word\<close> read with \<open>sint\<close>;
  \<^verbatim>\<open>size_t\<close> is a \<open>64 word\<close> read with \<open>unat\<close>.
\<close>

type_synonym int32 = "32 word"
type_synonym size_t = "64 word"

text \<open>\<^verbatim>\<open>geometry_msgs::Vector3\<close>, \<^verbatim>\<open>geometry_msgs::Point\<close> and \<^verbatim>\<open>Eigen::Vector3d\<close>.\<close>

record Vector3 =
  vec_x :: real
  vec_y :: real
  vec_z :: real

record Quaternion =
  quat_x :: real
  quat_y :: real
  quat_z :: real
  quat_w :: real

text \<open>\<^verbatim>\<open>geometry_msgs::Twist\<close>: the six fields of a velocity command.\<close>

record Twist =
  twist_linear :: Vector3
  twist_angular :: Vector3

text \<open>\<^verbatim>\<open>geometry_msgs::Pose\<close>, the payload of the \<^verbatim>\<open>PoseStamped\<close> on \<^verbatim>\<open>robot_pose\<close>.\<close>

record Pose =
  pose_position :: Vector3
  pose_orientation :: Quaternion

text \<open>A 3x3 matrix, \<open>m\<close>\<^emph>\<open>ij\<close> being row \<open>i\<close>, column \<open>j\<close>.\<close>

record Matrix3d =
  m00 :: real
  m01 :: real
  m02 :: real
  m10 :: real
  m11 :: real
  m12 :: real
  m20 :: real
  m21 :: real
  m22 :: real

text \<open>
  \<^verbatim>\<open>Eigen::Affine3d\<close>: the map \<open>p \<mapsto> linear_part * p + translation\<close>, stored by Eigen
  as a 4x4 matrix whose last row is \<open>(0, 0, 0, 1)\<close>.
\<close>

record Affine3d =
  linear_part :: Matrix3d
  translation :: Vector3

definition Identity3d :: Matrix3d where
  "Identity3d = \<lparr>m00 = 1, m01 = 0, m02 = 0, m10 = 0, m11 = 1, m12 = 0, m20 = 0, m21 = 0, m22 = 1\<rparr>"

definition Zero3 :: Vector3 where
  "Zero3 = \<lparr>vec_x = 0, vec_y = 0, vec_z = 0\<rparr>"

definition mat_mult :: "Matrix3d \<Rightarrow> Matrix3d \<Rightarrow> Matrix3d" where
  "mat_mult a b =
     \<lparr>m00 = m00 a * m00 b + m01 a * m10 b + m02 a * m20 b,
      m01 = m00 a * m01 b + m01 a * m11 b + m02 a * m21 b,
      m02 = m00 a * m02 b + m01 a * m12 b + m02 a * m22 b,
      m10 = m10 a * m00 b + m11 a * m10 b + m12 a * m20 b,
      m11 = m10 a * m01 b + m11 a * m11 b + m12 a * m21 b,
      m12 = m10 a * m02 b + m11 a * m12 b + m12 a * m22 b,
      m20 = m20 a * m00 b + m21 a * m10 b + m22 a * m20 b,
      m21 = m20 a * m01 b + m21 a * m11 b + m22 a * m21 b,
      m22 = m20 a * m02 b + m21 a * m12 b + m22 a * m22 b\<rparr>"

definition mat_vec :: "Matrix3d \<Rightarrow> Vector3 \<Rightarrow> Vector3" where
  "mat_vec a v =
     \<lparr>vec_x = m00 a * vec_x v + m01 a * vec_y v + m02 a * vec_z v,
      vec_y = m10 a * vec_x v + m11 a * vec_y v + m12 a * vec_z v,
      vec_z = m20 a * vec_x v + m21 a * vec_y v + m22 a * vec_z v\<rparr>"

definition vec_add :: "Vector3 \<Rightarrow> Vector3 \<Rightarrow> Vector3" where
  "vec_add u v = \<lparr>vec_x = vec_x u + vec_x v, vec_y = vec_y u + vec_y v, vec_z = vec_z u + vec_z v\<rparr>"

text \<open>
  \<^verbatim>\<open>a * b\<close> on two \<^verbatim>\<open>Affine3d\<close>: the product of the 4x4 matrices, that is, \<open>b\<close> is
  applied first and \<open>a\<close> second.
\<close>

definition affine_mult :: "Affine3d \<Rightarrow> Affine3d \<Rightarrow> Affine3d" where
  "affine_mult a b =
     \<lparr>linear_part = mat_mult (linear_part a) (linear_part b),
      translation = vec_add (mat_vec (linear_part a) (translation b)) (translation a)\<rparr>"

text \<open>
  \<^verbatim>\<open>Eigen::AngleAxisd(angle, Eigen::Vector3d::UnitZ())\<close> as a transform: the rotation by
  \<open>angle\<close> about the z axis, with no translation.
\<close>

definition AngleAxis_UnitZ :: "real \<Rightarrow> Affine3d" where
  "AngleAxis_UnitZ angle =
     \<lparr>linear_part =
        \<lparr>m00 = cos angle, m01 = - sin angle, m02 = 0,
         m10 = sin angle, m11 = cos angle, m12 = 0,
         m20 = 0, m21 = 0, m22 = 1\<rparr>,
      translation = Zero3\<rparr>"

text \<open>\<^verbatim>\<open>Eigen::Translation3d(x, y, z)\<close> as a transform: no rotation.\<close>

definition Translation3d :: "real \<Rightarrow> real \<Rightarrow> real \<Rightarrow> Affine3d" where
  "Translation3d tx ty tz =
     \<lparr>linear_part = Identity3d, translation = \<lparr>vec_x = tx, vec_y = ty, vec_z = tz\<rparr>\<rparr>"

text \<open>
  \<^verbatim>\<open>Eigen::Quaterniond::toRotationMatrix\<close>, used by \<^verbatim>\<open>tf::poseMsgToEigen\<close>: the
  usual polynomial in the four coefficients (no normalisation).
\<close>

definition toRotationMatrix :: "Quaternion \<Rightarrow> Matrix3d" where
  "toRotationMatrix q =
     (let tx = 2 * quat_x q; ty = 2 * quat_y q; tz = 2 * quat_z q;
          twx = tx * quat_w q; twy = ty * quat_w q; twz = tz * quat_w q;
          txx = tx * quat_x q; txy = ty * quat_x q; txz = tz * quat_x q;
          tyy = ty * quat_y q; tyz = tz * quat_y q; tzz = tz * quat_z q
      in \<lparr>m00 = 1 - (tyy + tzz), m01 = txy - twz, m02 = txz + twy,
          m10 = txy + twz, m11 = 1 - (txx + tzz), m12 = tyz - twx,
          m20 = txz - twy, m21 = tyz + twx, m22 = 1 - (txx + tyy)\<rparr>)"

text \<open>
  \<^verbatim>\<open>tf::poseMsgToEigen(m, e)\<close>:
  \<^verbatim>\<open>e = Translation3d(m.position) * Quaterniond(m.orientation)\<close>.
\<close>

definition poseMsgToEigen :: "Pose \<Rightarrow> Affine3d" where
  "poseMsgToEigen m =
     affine_mult
       (Translation3d (vec_x (pose_position m)) (vec_y (pose_position m)) (vec_z (pose_position m)))
       \<lparr>linear_part = toRotationMatrix (pose_orientation m), translation = Zero3\<rparr>"

section \<open>The motion predictor\<close>

text \<open>
  \<^verbatim>\<open>NavCollisionChecker::integrateTwist\<close>. The local \<^verbatim>\<open>int_vec\<close> "holds x, y and
  theta"; the value returned is the product
  \<^verbatim>\<open>AngleAxisd(int_vec.z(), UnitZ()) * Translation3d(int_vec.x(), int_vec.y(), 0.0)\<close>.
  With a step time of 0 and an angular rate of at least 0.0001 the source divides by
  zero, which is not a number in C++ and 0 here; no statement below is about that case.
\<close>

definition int_vec_of :: "Twist \<Rightarrow> real \<Rightarrow> Vector3" where
  "int_vec_of msg step_time =
     (if \<bar>vec_z (twist_angular msg)\<bar> < 0.0001 then
        \<lparr>vec_x = vec_x (twist_linear msg) * step_time, vec_y = 0, vec_z = 0\<rparr>
      else
        (let dist_change = vec_x (twist_linear msg) * step_time;
             angle_change = vec_z (twist_angular msg) * step_time;
             arc_radius = dist_change / angle_change
         in \<lparr>vec_x = sin angle_change * arc_radius,
             vec_y = arc_radius - cos angle_change * arc_radius,
             vec_z = angle_change\<rparr>))"

definition integrateTwist :: "Twist \<Rightarrow> real \<Rightarrow> Affine3d" where
  "integrateTwist msg step_time =
     (let int_vec = int_vec_of msg step_time
      in affine_mult (AngleAxis_UnitZ (vec_z int_vec))
           (Translation3d (vec_x int_vec) (vec_y int_vec) 0.0))"

section \<open>The node's state\<close>

text \<open>
  \<^verbatim>\<open>moveit::core::RobotState\<close>: the value of every variable of the robot, by name. The
  seven variables of the virtual joint between the world and the robot's base are among
  them.
\<close>

type_synonym RobotState = "string \<Rightarrow> real"

text \<open>\<^verbatim>\<open>sensor_msgs::JointState\<close>: names and positions, two parallel vectors.\<close>

record JointState =
  js_name :: "string list"
  js_position :: "real list"

record CollisionRequest =
  req_contacts :: bool
  req_max_contacts :: nat
  req_distance :: bool

record CollisionResult =
  res_collision :: bool
  res_contacts :: nat
  res_distance :: real

text \<open>
  \<^verbatim>\<open>planning_scene::PlanningScene\<close> is not part of the repository; the node uses it
  through \<^verbatim>\<open>checkCollision\<close> only (with the allowed collision matrix set once in the
  constructor). The scene is therefore its query: for a request and a robot state it
  gives the result, or \<open>None\<close> when the query does not complete (the call throws).
\<close>

type_synonym PlanningScene = "CollisionRequest \<Rightarrow> RobotState \<Rightarrow> CollisionResult option"

text \<open>
  \<^verbatim>\<open>visualization_msgs::Marker\<close>: the id and the pose are what \<^verbatim>\<open>addMarker\<close> computes;
  the frame, the shape, the colour, the scale and the namespace are constants of the
  source and are left out, and the pose is kept as the \<^verbatim>\<open>Affine3d\<close> it is converted from.
\<close>

record Marker =
  marker_id :: int32
  marker_pose :: Affine3d

datatype log_entry =
  WARN_THROTTLE real string
  | INFO_THROTTLE real string int

text \<open>
  The members of \<^verbatim>\<open>NavCollisionChecker\<close> that the callbacks read or write, under
  their names without the final underscore (\<^verbatim>\<open>robot_state_\<close> is \<open>robot_state\<close>). A publisher
  is the list of the messages published on it so far, and \<open>rosout\<close> the list of calls of
  the logging macros. \<open>collision_state_subscribers\<close> is what
  \<^verbatim>\<open>collision_state_pub_.getNumSubscribers()\<close> returns. \<open>checkCollision_calls\<close> is not a
  member: it records the robot state of every call of
  \<^verbatim>\<open>planning_scene_->checkCollision\<close>, in order, so that the calls can be counted.
\<close>

record NavCollisionChecker =
  robot_state :: RobotState
  planning_scene :: PlanningScene
  robot_pose_ptr :: "Pose option"
  virtual_link_joint_states :: JointState
  marker_array :: "Marker list"
  p_roll_out_step_time :: real
  p_roll_out_steps :: int32
  p_pass_through :: bool
  safe_twist_pub :: "Twist list"
  marker_pub :: "Marker list list"
  collision_state_pub :: "RobotState list"
  collision_state_subscribers :: nat
  rosout :: "log_entry list"
  checkCollision_calls :: "RobotState list"

text \<open>
  A callback either returns, with the state it leaves, or is left by an exception, with
  the state at the throw. Nothing in the source catches an exception.
\<close>

datatype 'a outcome = Returned 'a | Threw NavCollisionChecker

text \<open>The constructor: seven names, and \<^verbatim>\<open>position.resize(7)\<close>.\<close>

definition virtual_link_names :: "string list" where
  "virtual_link_names =
     [''world_virtual_joint/trans_x'', ''world_virtual_joint/trans_y'',
      ''world_virtual_joint/trans_z'', ''world_virtual_joint/rot_x'',
      ''world_virtual_joint/rot_y'', ''world_virtual_joint/rot_z'',
      ''world_virtual_joint/rot_w'']"

definition constructed_virtual_link_joint_states :: JointState where
  "constructed_virtual_link_joint_states =
     \<lparr>js_name = virtual_link_names, js_position = replicate 7 0\<rparr>"

text \<open>
  What the constructor establishes and every callback keeps: the seven names, and seven
  positions. \<^verbatim>\<open>position[i]\<close> for \<open>i < 7\<close> is within range exactly then.
\<close>

definition virtual_link_ok :: "NavCollisionChecker \<Rightarrow> bool" where
  "virtual_link_ok s \<longleftrightarrow>
     js_name (virtual_link_joint_states s) = virtual_link_names \<and>
     length (js_position (virtual_link_joint_states s)) = 7"

section \<open>The callbacks\<close>

text \<open>
  \<^verbatim>\<open>moveit::core::jointStateToRobotState\<close>: a message whose vectors differ in length is
  refused and the state left as it is; otherwise each named variable is set to its
  position, in the order of the message.
\<close>

definition jointStateToRobotState :: "JointState \<Rightarrow> RobotState \<Rightarrow> RobotState" where
  "jointStateToRobotState msg rs =
     (if length (js_name msg) \<noteq> length (js_position msg) then rs
      else fold (\<lambda>(n, v) r. r(n := v)) (zip (js_name msg) (js_position msg)) rs)"

text \<open>
  \<^verbatim>\<open>octomapCallback\<close> hands the message to MoveIt's \<^verbatim>\<open>processOctomapMsg\<close>, which
  replaces the scene; it is not modelled, and every statement below holds for every
  scene. \<^verbatim>\<open>robotPoseCallback\<close> keeps the message, \<^verbatim>\<open>jointStatesCallback\<close> merges it
  into the robot state.
\<close>

definition robotPoseCallback :: "Pose \<Rightarrow> NavCollisionChecker \<Rightarrow> NavCollisionChecker" where
  "robotPoseCallback msg s = s\<lparr>robot_pose_ptr := Some msg\<rparr>"

definition jointStatesCallback :: "JointState \<Rightarrow> NavCollisionChecker \<Rightarrow> NavCollisionChecker" where
  "jointStatesCallback msg s = s\<lparr>robot_state := jointStateToRobotState msg (robot_state s)\<rparr>"

text \<open>\<^verbatim>\<open>NavCollisionCheckerConfig\<close>, the dynamic_reconfigure parameters.\<close>

record NavCollisionCheckerConfig =
  roll_out_step_time :: real
  roll_out_steps :: int32
  pass_through :: bool

definition dynRecParamCallback ::
  "NavCollisionCheckerConfig \<Rightarrow> 32 word \<Rightarrow> NavCollisionChecker \<Rightarrow> NavCollisionChecker" where
  "dynRecParamCallback config level s =
     s\<lparr>p_roll_out_step_time := roll_out_step_time config,
       p_roll_out_steps := roll_out_steps config,
       p_pass_through := pass_through config\<rparr>"

text \<open>\<^verbatim>\<open>addMarker(pose, count)\<close>; \<^verbatim>\<open>marker.id = count\<close> narrows the \<^verbatim>\<open>size_t\<close>.\<close>

definition addMarker :: "Affine3d \<Rightarrow> size_t \<Rightarrow> NavCollisionChecker \<Rightarrow> NavCollisionChecker" where
  "addMarker pose count s =
     s\<lparr>marker_array := marker_array s @ [\<lparr>marker_id = ucast count, marker_pose = pose\<rparr>]\<rparr>"

text \<open>
  \<^verbatim>\<open>isInCollision(pose)\<close>. \<open>Quaterniond_of\<close> stands for Eigen's
  \<^verbatim>\<open>Eigen::Quaterniond quat(pose.rotation())\<close>, which is a function of the linear part of
  the transform and is not part of the repository: it is a parameter.
\<close>

definition collision_request :: CollisionRequest where
  "collision_request = \<lparr>req_contacts = True, req_max_contacts = 100, req_distance = True\<rparr>"

definition isInCollision ::
  "(Matrix3d \<Rightarrow> Quaternion) \<Rightarrow> Affine3d \<Rightarrow> NavCollisionChecker \<Rightarrow> (bool \<times> NavCollisionChecker) outcome" where
  "isInCollision Quaterniond_of pose s =
     (let quat = Quaterniond_of (linear_part pose);
          vl = virtual_link_joint_states s;
          vl = vl\<lparr>js_position := (js_position vl)
                 [0 := vec_x (translation pose),
                  1 := vec_y (translation pose),
                  2 := vec_z (translation pose),
                  3 := quat_x quat,
                  4 := quat_y quat,
                  5 := quat_z quat,
                  6 := quat_w quat]\<rparr>;
          rs = jointStateToRobotState vl (robot_state s);
          s = s\<lparr>virtual_link_joint_states := vl, robot_state := rs,
                checkCollision_calls := checkCollision_calls s @ [rs]\<rparr>
      in case planning_scene s collision_request rs of
           None \<Rightarrow> Threw s
         | Some collision_result \<Rightarrow>
             if res_collision collision_result then
               (let s = (if collision_state_subscribers s > 0
                         then s\<lparr>collision_state_pub := collision_state_pub s @ [robot_state s]\<rparr>
                         else s);
                    s = s\<lparr>rosout := rosout s @
                          [INFO_THROTTLE 1.0 ''Detected %d collisions. This message is throttled.''
                             (int (res_contacts collision_result))]\<rparr>
                in Returned (True, s))
             else Returned (False, s))"

text \<open>The command with its six fields set to zero, as the loop writes them.\<close>

definition stop_twist :: "Twist \<Rightarrow> Twist" where
  "stop_twist twist_out =
     (let t = twist_out\<lparr>twist_linear := (twist_linear twist_out)\<lparr>vec_x := 0.0\<rparr>\<rparr>;
          t = t\<lparr>twist_linear := (twist_linear t)\<lparr>vec_y := 0.0\<rparr>\<rparr>;
          t = t\<lparr>twist_linear := (twist_linear t)\<lparr>vec_z := 0.0\<rparr>\<rparr>;
          t = t\<lparr>twist_angular := (twist_angular t)\<lparr>vec_x := 0.0\<rparr>\<rparr>;
          t = t\<lparr>twist_angular := (twist_angular t)\<lparr>vec_y := 0.0\<rparr>\<rparr>;
          t = t\<lparr>twist_angular := (twist_angular t)\<lparr>vec_z := 0.0\<rparr>\<rparr>
      in t)"

text \<open>
  The loop of \<^verbatim>\<open>twistCallback\<close>,
  \<^verbatim>\<open>for (size_t i = 0; i < p_roll_out_steps_; ++i)\<close>, from the value \<open>i\<close> of the
  counter. In \<^verbatim>\<open>i < p_roll_out_steps_\<close> the \<^verbatim>\<open>int\<close> is converted to \<^verbatim>\<open>size_t\<close>: sign
  extension to 64 bits, \<open>scast\<close>.
\<close>

function roll_out_loop ::
  "(Matrix3d \<Rightarrow> Quaternion) \<Rightarrow> Affine3d \<Rightarrow> Twist \<Rightarrow> size_t \<Rightarrow> Affine3d \<Rightarrow> NavCollisionChecker
     \<Rightarrow> NavCollisionChecker outcome" where
  "roll_out_loop Quaterniond_of pose_change twist_out i test_pose s =
     (if i < scast (p_roll_out_steps s) then
        (case isInCollision Quaterniond_of (affine_mult test_pose pose_change)
                (addMarker (affine_mult test_pose pose_change) i s) of
           Threw s' \<Rightarrow> Threw s'
         | Returned (in_collision, s') \<Rightarrow>
             if in_collision then
               Returned (s'\<lparr>safe_twist_pub := safe_twist_pub s' @ [stop_twist twist_out],
                            marker_pub := marker_pub s' @ [marker_array s']\<rparr>)
             else
               roll_out_loop Quaterniond_of pose_change twist_out (i + 1)
                 (affine_mult test_pose pose_change) s')
      else
        Returned (s\<lparr>marker_pub := marker_pub s @ [marker_array s],
                    safe_twist_pub := safe_twist_pub s @ [twist_out]\<rparr>))"
  by pat_completeness auto

termination roll_out_loop
proof (relation "measure (\<lambda>(Q, pc, tw, i, tp, s). unat (scast (p_roll_out_steps s) :: size_t) - unat i)")
  show "wf (measure (\<lambda>(Q, pc, tw, i, tp, s). unat (scast (p_roll_out_steps s) :: size_t) - unat i))"
    by simp
next
  fix Q :: "Matrix3d \<Rightarrow> Quaternion" and pc tp :: Affine3d and tw :: Twist and i :: size_t
    and s s' :: NavCollisionChecker and x1 :: "bool \<times> NavCollisionChecker" and b :: bool
  assume less: "i < scast (p_roll_out_steps s)"
    and call: "isInCollision Q (affine_mult tp pc) (addMarker (affine_mult tp pc) i s) = Returned x1"
    and pair: "(b, s') = x1"
  from call pair have "p_roll_out_steps s' = p_roll_out_steps (addMarker (affine_mult tp pc) i s)"
    by (auto simp: isInCollision_def Let_def split: option.splits if_splits)
  then have same: "p_roll_out_steps s' = p_roll_out_steps s"
    by (simp add: addMarker_def)
  from less have "unat i < unat (scast (p_roll_out_steps s) :: size_t)"
    by (simp add: word_less_nat_alt)
  moreover have "unat (scast (p_roll_out_steps s) :: size_t) < 2 ^ 64"
    using unsigned_less [of "scast (p_roll_out_steps s) :: size_t"] by simp
  ultimately have "unat i + 1 < 2 ^ 64" and "unat i < unat (scast (p_roll_out_steps s) :: size_t)"
    by linarith+
  then have "unat (scast (p_roll_out_steps s) :: size_t) - unat (i + 1)
      < unat (scast (p_roll_out_steps s) :: size_t) - unat i"
    by (simp add: unat_word_ariths)
  with same show "((Q, pc, tw, i + 1, affine_mult tp pc, s'), (Q, pc, tw, i, tp, s))
      \<in> measure (\<lambda>(Q, pc, tw, i, tp, s). unat (scast (p_roll_out_steps s) :: size_t) - unat i)"
    by simp
qed

declare roll_out_loop.simps [simp del]

text \<open>The call of \<^verbatim>\<open>ROS_WARN_THROTTLE\<close> in \<^verbatim>\<open>twistCallback\<close>.\<close>

definition no_pose_warning :: log_entry where
  "no_pose_warning =
     WARN_THROTTLE 3.0
       ''Cannot get robot pose. Forwarding velocity command without safety check! This message is throttled.''"

text \<open>
  \<^verbatim>\<open>twistCallback(msg)\<close>: the bypass, the check that a pose was received, then the
  roll-out from the last pose received.
\<close>

definition twistCallback ::
  "(Matrix3d \<Rightarrow> Quaternion) \<Rightarrow> Twist \<Rightarrow> NavCollisionChecker \<Rightarrow> NavCollisionChecker outcome" where
  "twistCallback Quaterniond_of msg s =
     (let twist_out = msg in
      if p_pass_through s then
        Returned (s\<lparr>safe_twist_pub := safe_twist_pub s @ [twist_out]\<rparr>)
      else
        case robot_pose_ptr s of
          None \<Rightarrow>
            Returned
              (s\<lparr>rosout := rosout s @ [no_pose_warning],
                 safe_twist_pub := safe_twist_pub s @ [twist_out]\<rparr>)
        | Some robot_pose \<Rightarrow>
            (let step_time = p_roll_out_step_time s;
                 test_pose = poseMsgToEigen robot_pose;
                 pose_change = integrateTwist msg step_time;
                 s = s\<lparr>marker_array := []\<rparr>
             in roll_out_loop Quaterniond_of pose_change twist_out 0 test_pose s))"

section \<open>Notions used in the statements\<close>

text \<open>The state a callback leaves, whether it returned or threw.\<close>

fun checked_state :: "(bool \<times> NavCollisionChecker) outcome \<Rightarrow> NavCollisionChecker" where
  "checked_state (Returned (b, s)) = s"
| "checked_state (Threw s) = s"

fun final_state :: "NavCollisionChecker outcome \<Rightarrow> NavCollisionChecker" where
  "final_state (Returned s) = s"
| "final_state (Threw s) = s"

text \<open>
  The seven values of the virtual link for a pose: its translation, then the
  coefficients x, y, z, w of the quaternion Eigen makes of its rotation.
\<close>

definition virtual_link_values :: "(Matrix3d \<Rightarrow> Quaternion) \<Rightarrow> Affine3d \<Rightarrow> real list" where
  "virtual_link_values Quaterniond_of pose =
     [vec_x (translation pose), vec_y (translation pose), vec_z (translation pose),
      quat_x (Quaterniond_of (linear_part pose)), quat_y (Quaterniond_of (linear_part pose)),
      quat_z (Quaterniond_of (linear_part pose)), quat_w (Quaterniond_of (linear_part pose))]"

text \<open>The robot state a pose is checked in: the virtual link set to the pose.\<close>

definition queried_state :: "(Matrix3d \<Rightarrow> Quaternion) \<Rightarrow> Affine3d \<Rightarrow> RobotState \<Rightarrow> RobotState" where
  "queried_state Quaterniond_of pose rs =
     jointStateToRobotState
       \<lparr>js_name = virtual_link_names, js_position = virtual_link_values Quaterniond_of pose\<rparr> rs"

text \<open>The test pose after \<open>k\<close> steps: \<open>start * pose_change ^ k\<close>, multiplied on the right.\<close>

primrec test_pose_after :: "Affine3d \<Rightarrow> Affine3d \<Rightarrow> nat \<Rightarrow> Affine3d" where
  "test_pose_after start pose_change 0 = start"
| "test_pose_after start pose_change (Suc k) =
     affine_mult (test_pose_after start pose_change k) pose_change"

text \<open>The \<open>k\<close>-th pose the roll-out predicts for a command, from the last pose received.\<close>

definition predicted_pose :: "NavCollisionChecker \<Rightarrow> Pose \<Rightarrow> Twist \<Rightarrow> nat \<Rightarrow> Affine3d" where
  "predicted_pose s robot_pose msg k =
     test_pose_after (poseMsgToEigen robot_pose) (integrateTwist msg (p_roll_out_step_time s)) k"

text \<open>The bound of the loop as the comparison reads it: the step count as a \<^verbatim>\<open>size_t\<close>.\<close>

definition roll_out_bound :: "NavCollisionChecker \<Rightarrow> nat" where
  "roll_out_bound s = unat (scast (p_roll_out_steps s) :: size_t)"

text \<open>
  What the scene answers for a pose, with the other joints as they are in the state: the
  query may report no collision, report a collision, or not complete.
\<close>

definition step_query ::
  "(Matrix3d \<Rightarrow> Quaternion) \<Rightarrow> NavCollisionChecker \<Rightarrow> Affine3d \<Rightarrow> CollisionResult option" where
  "step_query Q s pose = planning_scene s collision_request (queried_state Q pose (robot_state s))"

definition step_clear :: "(Matrix3d \<Rightarrow> Quaternion) \<Rightarrow> NavCollisionChecker \<Rightarrow> Affine3d \<Rightarrow> bool" where
  "step_clear Q s pose =
     (case step_query Q s pose of None \<Rightarrow> False | Some r \<Rightarrow> \<not> res_collision r)"

definition step_collides :: "(Matrix3d \<Rightarrow> Quaternion) \<Rightarrow> NavCollisionChecker \<Rightarrow> Affine3d \<Rightarrow> bool" where
  "step_collides Q s pose =
     (case step_query Q s pose of None \<Rightarrow> False | Some r \<Rightarrow> res_collision r)"

definition step_fails :: "(Matrix3d \<Rightarrow> Quaternion) \<Rightarrow> NavCollisionChecker \<Rightarrow> Affine3d \<Rightarrow> bool" where
  "step_fails Q s pose \<longleftrightarrow> step_query Q s pose = None"

text \<open>
  The invariant of the loop: \<open>t\<close> is the state after \<open>m\<close> steps from the test pose \<open>tp\<close>
  in state \<open>s\<close>, none of which collided.
\<close>

definition clear_steps_done ::
  "(Matrix3d \<Rightarrow> Quaternion) \<Rightarrow> Affine3d \<Rightarrow> Affine3d \<Rightarrow> NavCollisionChecker \<Rightarrow> nat
     \<Rightarrow> NavCollisionChecker \<Rightarrow> bool" where
  "clear_steps_done Q pc tp s m t \<longleftrightarrow>
     virtual_link_ok t \<and>
     planning_scene t = planning_scene s \<and>
     p_roll_out_steps t = p_roll_out_steps s \<and>
     queried_state Q (test_pose_after tp pc (Suc m)) (robot_state t) =
       queried_state Q (test_pose_after tp pc (Suc m)) (robot_state s) \<and>
     safe_twist_pub t = safe_twist_pub s \<and>
     marker_pub t = marker_pub s \<and>
     rosout t = rosout s \<and>
     checkCollision_calls t = checkCollision_calls s @
       map (\<lambda>j. queried_state Q (test_pose_after tp pc j) (robot_state s)) [1..<Suc m] \<and>
     map marker_pose (marker_array t) = map marker_pose (marker_array s) @
       map (test_pose_after tp pc) [1..<Suc m]"

section \<open>Example inputs\<close>

text \<open>
  A stand-in for Eigen's conversion that is right for the poses of the examples, which
  do not rotate: the identity quaternion.
\<close>

definition identity_Quaterniond_of :: "Matrix3d \<Rightarrow> Quaternion" where
  "identity_Quaterniond_of m = \<lparr>quat_x = 0, quat_y = 0, quat_z = 0, quat_w = 1\<rparr>"

definition origin_pose :: Pose where
  "origin_pose =
     \<lparr>pose_position = \<lparr>vec_x = 0, vec_y = 0, vec_z = 0\<rparr>,
      pose_orientation = \<lparr>quat_x = 0, quat_y = 0, quat_z = 0, quat_w = 1\<rparr>\<rparr>"

text \<open>\<^verbatim>\<open>{linear.x = 1.0, angular.z = 0.0}\<close>: straight ahead at 1 m/s.\<close>

definition forward_cmd :: Twist where
  "forward_cmd =
     \<lparr>twist_linear = \<lparr>vec_x = 1, vec_y = 0, vec_z = 0\<rparr>,
      twist_angular = \<lparr>vec_x = 0, vec_y = 0, vec_z = 0\<rparr>\<rparr>"

text \<open>A scene that reports a collision where the x coordinate of the base is occupied.\<close>

definition obstacle_scene :: "(real \<Rightarrow> bool) \<Rightarrow> PlanningScene" where
  "obstacle_scene occupied req rs =
     Some \<lparr>res_collision = occupied (rs ''world_virtual_joint/trans_x''),
           res_contacts = (if occupied (rs ''world_virtual_joint/trans_x'') then 1 else 0),
           res_distance = 0\<rparr>"

text \<open>A scene whose query never completes.\<close>

definition failing_scene :: PlanningScene where
  "failing_scene req rs = None"

text \<open>
  A node at the origin, with a wall from x = 1.5 m on, steps of 0.5 s and a horizon of
  10 steps: the third predicted pose is the first in collision.
\<close>

definition example_node :: NavCollisionChecker where
  "example_node =
     \<lparr>robot_state = (\<lambda>n. 0),
      planning_scene = obstacle_scene (\<lambda>x. 3 / 2 \<le> x),
      robot_pose_ptr = Some origin_pose,
      virtual_link_joint_states = constructed_virtual_link_joint_states,
      marker_array = [],
      p_roll_out_step_time = 1 / 2,
      p_roll_out_steps = 10,
      p_pass_through = False,
      safe_twist_pub = [],
      marker_pub = [],
      collision_state_pub = [],
      collision_state_subscribers = 0,
      rosout = [],
      checkCollision_calls = []\<rparr>"

text \<open>The same node with the wall at the first predicted pose and the bypass set.\<close>

definition bypass_node :: NavCollisionChecker where
  "bypass_node =
     example_node\<lparr>planning_scene := obstacle_scene (\<lambda>x. 1 / 2 \<le> x), p_pass_through := True\<rparr>"


text \<open>The example node with a scene whose query never completes.\<close>

definition failing_node :: NavCollisionChecker where
  "failing_node = example_node\<lparr>planning_scene := failing_scene\<rparr>"

text \<open>A free scene and a horizon of 4 steps; the same with a horizon of 0 and a wall everywhere.\<close>

definition free_node :: NavCollisionChecker where
  "free_node = example_node\<lparr>planning_scene := obstacle_scene (\<lambda>x. False), p_roll_out_steps := 4\<rparr>"

definition zero_horizon_node :: NavCollisionChecker where
  "zero_horizon_node =
     example_node\<lparr>planning_scene := obstacle_scene (\<lambda>x. True), p_roll_out_steps := 0\<rparr>"

text \<open>A horizon of -1 step: with the wall at the first predicted pose, and in a free scene.\<close>

definition negative_horizon_node :: NavCollisionChecker where
  "negative_horizon_node =
     example_node\<lparr>planning_scene := obstacle_scene (\<lambda>x. 1 / 2 \<le> x), p_roll_out_steps := - 1\<rparr>"

definition negative_horizon_free_node :: NavCollisionChecker where
  "negative_horizon_free_node =
     example_node\<lparr>planning_scene := obstacle_scene (\<lambda>x. False), p_roll_out_steps := - 1\<rparr>"



text \<open>\<^verbatim>\<open>{linear.x = 1.0, angular.z = 1.0}\<close>: with a step of 1 s, an arc of radius 1 m and angle 1 rad.\<close>

definition arc_cmd :: Twist where
  "arc_cmd =
     \<lparr>twist_linear = \<lparr>vec_x = 1, vec_y = 0, vec_z = 0\<rparr>,
      twist_angular = \<lparr>vec_x = 0, vec_y = 0, vec_z = 1\<rparr>\<rparr>"

definition arc_node :: NavCollisionChecker where
  "arc_node = example_node\<lparr>p_roll_out_step_time := 1\<rparr>"

section \<open>The collision check\<close>

lemma seven_updates:
  "length xs = 7 \<Longrightarrow>
   xs[0 := a, 1 := b, 2 := c, 3 := d, 4 := e, 5 := f, 6 := g] = [a, b, c, d, e, f, g]"
  by (simp add: eval_nat_numeral length_Suc_conv) auto

lemma length_virtual_link_values [simp]: "length (virtual_link_values Q pose) = 7"
  by (simp add: virtual_link_values_def)

lemma write_virtual_link:
  assumes "js_name vl = virtual_link_names" and "length (js_position vl) = 7"
  shows "vl\<lparr>js_position := (js_position vl)
           [0 := vec_x (translation pose), 1 := vec_y (translation pose),
            2 := vec_z (translation pose), 3 := quat_x (Q (linear_part pose)),
            4 := quat_y (Q (linear_part pose)), 5 := quat_z (Q (linear_part pose)),
            6 := quat_w (Q (linear_part pose))]\<rparr> =
         \<lparr>js_name = virtual_link_names, js_position = virtual_link_values Q pose\<rparr>"
proof -
  have "(js_position vl)
           [0 := vec_x (translation pose), 1 := vec_y (translation pose),
            2 := vec_z (translation pose), 3 := quat_x (Q (linear_part pose)),
            4 := quat_y (Q (linear_part pose)), 5 := quat_z (Q (linear_part pose)),
            6 := quat_w (Q (linear_part pose))] = virtual_link_values Q pose"
    unfolding virtual_link_values_def by (rule seven_updates) (rule assms(2))
  with assms(1) show ?thesis by (cases vl) simp
qed

text \<open>The check in a state that has the constructor's seven names and positions.\<close>

lemma isInCollision_ok:
  assumes "virtual_link_ok s"
  shows "isInCollision Q pose s =
     (let rs = queried_state Q pose (robot_state s);
          s1 = s\<lparr>virtual_link_joint_states :=
                   \<lparr>js_name = virtual_link_names, js_position = virtual_link_values Q pose\<rparr>,
                 robot_state := rs,
                 checkCollision_calls := checkCollision_calls s @ [rs]\<rparr>
      in case planning_scene s collision_request rs of
           None \<Rightarrow> Threw s1
         | Some r \<Rightarrow>
             if res_collision r then
               Returned (True,
                 s1\<lparr>collision_state_pub :=
                       (if collision_state_subscribers s > 0 then collision_state_pub s @ [rs]
                        else collision_state_pub s),
                     rosout := rosout s @
                       [INFO_THROTTLE 1.0 ''Detected %d collisions. This message is throttled.''
                          (int (res_contacts r))]\<rparr>)
             else Returned (False, s1))"
proof -
  from assms have n: "js_name (virtual_link_joint_states s) = virtual_link_names"
    and l: "length (js_position (virtual_link_joint_states s)) = 7"
    by (simp_all add: virtual_link_ok_def)
  show ?thesis
    unfolding isInCollision_def Let_def write_virtual_link [OF n l] queried_state_def
    by (simp split: option.splits)
qed

lemma queried_state_eq:
  "queried_state Q pose rs =
     rs(''world_virtual_joint/trans_x'' := vec_x (translation pose),
        ''world_virtual_joint/trans_y'' := vec_y (translation pose),
        ''world_virtual_joint/trans_z'' := vec_z (translation pose),
        ''world_virtual_joint/rot_x'' := quat_x (Q (linear_part pose)),
        ''world_virtual_joint/rot_y'' := quat_y (Q (linear_part pose)),
        ''world_virtual_joint/rot_z'' := quat_z (Q (linear_part pose)),
        ''world_virtual_joint/rot_w'' := quat_w (Q (linear_part pose)))"
  by (simp add: queried_state_def jointStateToRobotState_def virtual_link_names_def
      virtual_link_values_def)

lemma queried_state_names:
  "map (queried_state Q pose rs) virtual_link_names = virtual_link_values Q pose"
  by (simp add: queried_state_eq virtual_link_names_def virtual_link_values_def)

lemma queried_state_other:
  "n \<notin> set virtual_link_names \<Longrightarrow> queried_state Q pose rs n = rs n"
  by (simp add: queried_state_eq virtual_link_names_def)

lemma queried_state_overwrite [simp]:
  "queried_state Q p (queried_state Q p' rs) = queried_state Q p rs"
  by (rule ext) (simp add: queried_state_eq)

lemma isInCollision_state:
  assumes "virtual_link_ok s"
  shows "virtual_link_joint_states (checked_state (isInCollision Q pose s)) =
           \<lparr>js_name = virtual_link_names, js_position = virtual_link_values Q pose\<rparr>"
    and "robot_state (checked_state (isInCollision Q pose s)) = queried_state Q pose (robot_state s)"
  by (simp_all add: isInCollision_ok [OF assms] Let_def split: option.splits)

text \<open>The constructor establishes \<open>virtual_link_ok\<close> and the check keeps it.\<close>

lemma constructed_ok:
  "virtual_link_joint_states s = constructed_virtual_link_joint_states \<Longrightarrow> virtual_link_ok s"
  by (simp add: virtual_link_ok_def constructed_virtual_link_joint_states_def)

lemma isInCollision_keeps_ok:
  assumes "virtual_link_ok s"
  shows "virtual_link_ok (checked_state (isInCollision Q pose s))"
  using isInCollision_state(1) [OF assms, of Q pose] by (simp add: virtual_link_ok_def)

lemma example_node_ok: "virtual_link_ok example_node"
  by (simp add: virtual_link_ok_def example_node_def constructed_virtual_link_joint_states_def)

text \<open>
  C9. For every candidate pose and every joint configuration, the collision check writes
  the translation of the pose and the quaternion of its orientation into the seven
  entries of the virtual link, in the message and in the robot state, and leaves every
  other joint value as it was. (That the quaternion has norm 1 is a property of Eigen's
  conversion of a rotation matrix, which is a parameter here.)
\<close>

theorem isInCollision_writes_virtual_link_only:
  assumes "virtual_link_ok s"
  shows "js_name (virtual_link_joint_states (checked_state (isInCollision Q pose s))) =
           virtual_link_names \<and>
         js_position (virtual_link_joint_states (checked_state (isInCollision Q pose s))) =
           [vec_x (translation pose), vec_y (translation pose), vec_z (translation pose),
            quat_x (Q (linear_part pose)), quat_y (Q (linear_part pose)),
            quat_z (Q (linear_part pose)), quat_w (Q (linear_part pose))] \<and>
         map (robot_state (checked_state (isInCollision Q pose s))) virtual_link_names =
           [vec_x (translation pose), vec_y (translation pose), vec_z (translation pose),
            quat_x (Q (linear_part pose)), quat_y (Q (linear_part pose)),
            quat_z (Q (linear_part pose)), quat_w (Q (linear_part pose))] \<and>
         (\<forall>n. n \<notin> set virtual_link_names \<longrightarrow>
            robot_state (checked_state (isInCollision Q pose s)) n = robot_state s n)"
  using isInCollision_state [OF assms, of Q pose]
  by (simp add: queried_state_names queried_state_other) (simp add: virtual_link_values_def)

theorem isInCollision_writes_virtual_link_only_witness:
  "virtual_link_ok example_node \<and>
   js_position (virtual_link_joint_states
     (checked_state (isInCollision identity_Quaterniond_of (Translation3d (3 / 2) 2 0) example_node))) =
     [3 / 2, 2, 0, 0, 0, 0, 1] \<and>
   map (robot_state
     (checked_state (isInCollision identity_Quaterniond_of (Translation3d (3 / 2) 2 0) example_node)))
     virtual_link_names = [3 / 2, 2, 0, 0, 0, 0, 1] \<and>
   robot_state
     (checked_state (isInCollision identity_Quaterniond_of (Translation3d (3 / 2) 2 0) example_node))
     ''arm_joint_0'' = robot_state example_node ''arm_joint_0''"
proof -
  note w = isInCollision_writes_virtual_link_only
    [OF example_node_ok, of identity_Quaterniond_of "Translation3d (3 / 2) 2 0"]
  from w have other: "robot_state
     (checked_state (isInCollision identity_Quaterniond_of (Translation3d (3 / 2) 2 0) example_node))
     ''arm_joint_0'' = robot_state example_node ''arm_joint_0''"
    by (simp add: virtual_link_names_def)
  from w have written: "js_position (virtual_link_joint_states
     (checked_state (isInCollision identity_Quaterniond_of (Translation3d (3 / 2) 2 0) example_node))) =
     [3 / 2, 2, 0, 0, 0, 0, 1]"
    and state: "map (robot_state
     (checked_state (isInCollision identity_Quaterniond_of (Translation3d (3 / 2) 2 0) example_node)))
     virtual_link_names = [3 / 2, 2, 0, 0, 0, 0, 1]"
    by (simp_all add: Translation3d_def identity_Quaterniond_of_def)
  from example_node_ok written state other show ?thesis by blast
qed

section \<open>The examples evaluated\<close>

lemma forward_step: "integrateTwist forward_cmd t = Translation3d t 0 0"
  by (simp add: integrateTwist_def int_vec_of_def forward_cmd_def affine_mult_def AngleAxis_UnitZ_def
     Translation3d_def mat_mult_def mat_vec_def vec_add_def Identity3d_def Zero3_def)

lemma origin: "poseMsgToEigen origin_pose = Translation3d 0 0 0"
  by (simp add: poseMsgToEigen_def origin_pose_def affine_mult_def toRotationMatrix_def
     Translation3d_def mat_mult_def mat_vec_def vec_add_def Identity3d_def Zero3_def)

lemma Translation3d_mult:
  "affine_mult (Translation3d a b c) (Translation3d a' b' c') = Translation3d (a + a') (b + b') (c + c')"
  by (simp add: affine_mult_def Translation3d_def mat_mult_def mat_vec_def vec_add_def Identity3d_def)

lemma predicted_pose_forward:
  "predicted_pose s origin_pose forward_cmd k = Translation3d (real k * p_roll_out_step_time s) 0 0"
  by (induction k) (simp_all add: predicted_pose_def forward_step origin Translation3d_mult algebra_simps)

lemma step_obstacle:
  assumes "planning_scene s = obstacle_scene occupied"
  shows "step_collides Q s pose = occupied (vec_x (translation pose))"
    and "step_clear Q s pose = (\<not> occupied (vec_x (translation pose)))"
  using assms
  by (simp_all add: step_collides_def step_clear_def step_query_def obstacle_scene_def queried_state_eq)

section \<open>The filter: bypass and missing pose\<close>

text \<open>
  C7. For every command, if the pass-through flag is set, the filter publishes the
  command unchanged and returns at once: nothing else in the state changes, so no pose
  is predicted and no collision query is made, whatever the scene holds.
\<close>

theorem pass_through_forwards_command:
  assumes "p_pass_through s"
  shows "twistCallback Q msg s = Returned (s\<lparr>safe_twist_pub := safe_twist_pub s @ [msg]\<rparr>)"
  using assms by (simp add: twistCallback_def)

theorem pass_through_forwards_command_witness:
  "p_pass_through bypass_node \<and>
   step_collides identity_Quaterniond_of bypass_node
     (predicted_pose bypass_node origin_pose forward_cmd 1) \<and>
   twistCallback identity_Quaterniond_of forward_cmd bypass_node =
     Returned (bypass_node\<lparr>safe_twist_pub := [forward_cmd]\<rparr>)"
proof -
  have p: "p_pass_through bypass_node"
    by (simp add: bypass_node_def)
  have "planning_scene bypass_node = obstacle_scene (\<lambda>x. 1 / 2 \<le> x)"
    and "p_roll_out_step_time bypass_node = 1 / 2" and "safe_twist_pub bypass_node = []"
    by (simp_all add: bypass_node_def example_node_def)
  then show ?thesis
    using p pass_through_forwards_command [OF p, of identity_Quaterniond_of forward_cmd]
    by (simp add: step_obstacle predicted_pose_forward Translation3d_def)
qed



section \<open>The roll-out loop\<close>

lemma roll_out_loop_exit:
  "\<not> i < scast (p_roll_out_steps s) \<Longrightarrow>
   roll_out_loop Q pc tw i tp s =
     Returned (s\<lparr>marker_pub := marker_pub s @ [marker_array s],
                 safe_twist_pub := safe_twist_pub s @ [tw]\<rparr>)"
  by (subst roll_out_loop.simps) simp

lemma roll_out_loop_iterate:
  "i < scast (p_roll_out_steps s) \<Longrightarrow>
   roll_out_loop Q pc tw i tp s =
     (case isInCollision Q (affine_mult tp pc) (addMarker (affine_mult tp pc) i s) of
        Threw s' \<Rightarrow> Threw s'
      | Returned (in_collision, s') \<Rightarrow>
          if in_collision then
            Returned (s'\<lparr>safe_twist_pub := safe_twist_pub s' @ [stop_twist tw],
                         marker_pub := marker_pub s' @ [marker_array s']\<rparr>)
          else roll_out_loop Q pc tw (i + 1) (affine_mult tp pc) s')"
  by (subst roll_out_loop.simps) simp

lemma addMarker_virtual_link_ok: "virtual_link_ok (addMarker pose i s) = virtual_link_ok s"
  by (simp add: addMarker_def virtual_link_ok_def)

lemma size_t_less_iff: "(i :: size_t) < scast (p_roll_out_steps s) \<longleftrightarrow> unat i < roll_out_bound s"
  by (simp add: roll_out_bound_def word_less_nat_alt)

lemma size_t_next:
  assumes "unat (i :: size_t) < roll_out_bound s"
  shows "unat (i + 1) = Suc (unat i)"
proof -
  have "roll_out_bound s < 2 ^ 64"
    unfolding roll_out_bound_def
    using unsigned_less [of "scast (p_roll_out_steps s) :: size_t"] by simp
  with assms have "unat i + 1 < 2 ^ 64" by linarith
  then show ?thesis by (simp add: unat_word_ariths)
qed

lemma clear_prefix:
  assumes ok: "virtual_link_ok s"
    and bound: "unat i + m \<le> roll_out_bound s"
    and clear: "\<forall>j. 1 \<le> j \<and> j \<le> m \<longrightarrow> step_clear Q s (test_pose_after tp pc j)"
  shows "\<exists>i' t. roll_out_loop Q pc tw i tp s = roll_out_loop Q pc tw i' (test_pose_after tp pc m) t \<and>
            unat i' = unat i + m \<and> clear_steps_done Q pc tp s m t"
  using bound clear
proof (induction m)
  case 0
  have "clear_steps_done Q pc tp s 0 s"
    using ok by (simp add: clear_steps_done_def)
  then show ?case by auto
next
  case (Suc m)
  then obtain i' t where run: "roll_out_loop Q pc tw i tp s = roll_out_loop Q pc tw i' (test_pose_after tp pc m) t"
    and idx: "unat i' = unat i + m" and inv: "clear_steps_done Q pc tp s m t"
    by auto
  define p where "p = test_pose_after tp pc (Suc m)"
  have p_eq: "affine_mult (test_pose_after tp pc m) pc = p"
    by (simp add: p_def)
  let ?rs = "queried_state Q p (robot_state s)"
  let ?t1 = "addMarker p i' t"
  from Suc.prems idx have less: "unat i' < roll_out_bound s" by simp
  from inv have same_steps: "p_roll_out_steps t = p_roll_out_steps s"
    by (simp add: clear_steps_done_def)
  then have less_t: "i' < scast (p_roll_out_steps t)"
    using less by (simp add: size_t_less_iff roll_out_bound_def)
  from Suc.prems(2) have "step_clear Q s p"
    unfolding p_def by (auto simp del: test_pose_after.simps)
  then obtain r where r: "planning_scene s collision_request ?rs = Some r" and nc: "\<not> res_collision r"
    by (auto simp: step_clear_def step_query_def split: option.splits)
  from inv have ok1: "virtual_link_ok ?t1"
    by (simp add: clear_steps_done_def addMarker_virtual_link_ok)
  from inv have rs_eq: "queried_state Q p (robot_state ?t1) = ?rs"
    by (simp add: clear_steps_done_def addMarker_def p_eq)
  from inv have scene_eq: "planning_scene ?t1 = planning_scene s"
    by (simp add: clear_steps_done_def addMarker_def)
  define t2 where "t2 = ?t1\<lparr>virtual_link_joint_states :=
                   \<lparr>js_name = virtual_link_names, js_position = virtual_link_values Q p\<rparr>,
                 robot_state := ?rs,
                 checkCollision_calls := checkCollision_calls ?t1 @ [?rs]\<rparr>"
  have call: "isInCollision Q p ?t1 = Returned (False, t2)"
    using r nc by (simp add: isInCollision_ok [OF ok1] rs_eq scene_eq Let_def t2_def)
  have step: "roll_out_loop Q pc tw i' (test_pose_after tp pc m) t =
      roll_out_loop Q pc tw (i' + 1) p t2"
    by (simp add: roll_out_loop_iterate [OF less_t] p_eq call)
  have inv2: "clear_steps_done Q pc tp s (Suc m) t2"
    using inv
    by (simp add: clear_steps_done_def t2_def addMarker_def virtual_link_ok_def p_eq)
  have idx2: "unat (i' + 1) = unat i + Suc m"
    using size_t_next [OF less] idx by simp
  from run step have run2: "roll_out_loop Q pc tw i tp s =
      roll_out_loop Q pc tw (i' + 1) (test_pose_after tp pc (Suc m)) t2"
    unfolding p_def by (rule trans)
  show ?case
  proof (intro exI conjI)
    show "roll_out_loop Q pc tw i tp s =
      roll_out_loop Q pc tw (i' + 1) (test_pose_after tp pc (Suc m)) t2" by (fact run2)
    show "unat (i' + 1) = unat i + Suc m" by (fact idx2)
    show "clear_steps_done Q pc tp s (Suc m) t2" by (fact inv2)
  qed
qed


lemma loop_all_clear:
  assumes ok: "virtual_link_ok s"
    and bound: "unat i + m = roll_out_bound s"
    and clear: "\<forall>j. 1 \<le> j \<and> j \<le> m \<longrightarrow> step_clear Q s (test_pose_after tp pc j)"
  shows "\<exists>t. roll_out_loop Q pc tw i tp s =
            Returned (t\<lparr>marker_pub := marker_pub t @ [marker_array t],
                        safe_twist_pub := safe_twist_pub t @ [tw]\<rparr>) \<and>
            clear_steps_done Q pc tp s m t"
proof -
  from bound have "unat i + m \<le> roll_out_bound s" by simp
  from clear_prefix [OF ok this clear, of tw]
  obtain i' t where run: "roll_out_loop Q pc tw i tp s = roll_out_loop Q pc tw i' (test_pose_after tp pc m) t"
    and idx: "unat i' = unat i + m" and inv: "clear_steps_done Q pc tp s m t"
    by auto
  from inv have "p_roll_out_steps t = p_roll_out_steps s"
    by (simp add: clear_steps_done_def)
  with idx bound have "\<not> i' < scast (p_roll_out_steps t)"
    by (simp add: size_t_less_iff roll_out_bound_def)
  from roll_out_loop_exit [OF this] run inv show ?thesis by auto
qed

lemma loop_last_query:
  assumes ok: "virtual_link_ok s"
    and bound: "unat i + Suc m \<le> roll_out_bound s"
    and clear: "\<forall>j. 1 \<le> j \<and> j \<le> m \<longrightarrow> step_clear Q s (test_pose_after tp pc j)"
  shows "\<exists>i' t. clear_steps_done Q pc tp s m t \<and>
     roll_out_loop Q pc tw i tp s =
       (case isInCollision Q (test_pose_after tp pc (Suc m)) (addMarker (test_pose_after tp pc (Suc m)) i' t) of
          Threw s' \<Rightarrow> Threw s'
        | Returned (in_collision, s') \<Rightarrow>
            if in_collision then
              Returned (s'\<lparr>safe_twist_pub := safe_twist_pub s' @ [stop_twist tw],
                           marker_pub := marker_pub s' @ [marker_array s']\<rparr>)
            else roll_out_loop Q pc tw (i' + 1) (test_pose_after tp pc (Suc m)) s')"
proof -
  from bound have "unat i + m \<le> roll_out_bound s" by simp
  from clear_prefix [OF ok this clear, of tw]
  obtain i' t where run: "roll_out_loop Q pc tw i tp s = roll_out_loop Q pc tw i' (test_pose_after tp pc m) t"
    and idx: "unat i' = unat i + m" and inv: "clear_steps_done Q pc tp s m t"
    by auto
  from inv have "p_roll_out_steps t = p_roll_out_steps s"
    by (simp add: clear_steps_done_def)
  with idx bound have "i' < scast (p_roll_out_steps t)"
    by (simp add: size_t_less_iff roll_out_bound_def)
  note it = roll_out_loop_iterate [OF this, of Q pc tw "test_pose_after tp pc m"]
  show ?thesis
    unfolding test_pose_after.simps(2)
    by (intro exI [of _ i'] exI [of _ t] conjI inv trans [OF run it])
qed

lemma loop_blocked:
  assumes ok: "virtual_link_ok s"
    and bound: "unat i + Suc m \<le> roll_out_bound s"
    and clear: "\<forall>j. 1 \<le> j \<and> j \<le> m \<longrightarrow> step_clear Q s (test_pose_after tp pc j)"
    and hit: "step_collides Q s (test_pose_after tp pc (Suc m))"
  shows "\<exists>t. roll_out_loop Q pc tw i tp s = Returned t \<and>
     safe_twist_pub t = safe_twist_pub s @ [stop_twist tw] \<and>
     marker_pub t = marker_pub s @ [marker_array t] \<and>
     map marker_pose (marker_array t) =
       map marker_pose (marker_array s) @ map (test_pose_after tp pc) [1..<Suc (Suc m)] \<and>
     checkCollision_calls t = checkCollision_calls s @
       map (\<lambda>j. queried_state Q (test_pose_after tp pc j) (robot_state s)) [1..<Suc (Suc m)]"
proof -
  define p where "p = test_pose_after tp pc (Suc m)"
  from loop_last_query [OF ok bound clear, of tw]
  obtain i' t where inv: "clear_steps_done Q pc tp s m t"
    and run: "roll_out_loop Q pc tw i tp s =
       (case isInCollision Q p (addMarker p i' t) of
          Threw s' \<Rightarrow> Threw s'
        | Returned (in_collision, s') \<Rightarrow>
            if in_collision then
              Returned (s'\<lparr>safe_twist_pub := safe_twist_pub s' @ [stop_twist tw],
                           marker_pub := marker_pub s' @ [marker_array s']\<rparr>)
            else roll_out_loop Q pc tw (i' + 1) p s')"
    unfolding p_def by blast
  have p_eq: "affine_mult (test_pose_after tp pc m) pc = p"
    by (simp add: p_def)
  let ?rs = "queried_state Q p (robot_state s)"
  from hit obtain r where r: "planning_scene s collision_request ?rs = Some r" and c: "res_collision r"
    unfolding p_def by (auto simp: step_collides_def step_query_def split: option.splits)
  from inv have ok1: "virtual_link_ok (addMarker p i' t)"
    by (simp add: clear_steps_done_def addMarker_virtual_link_ok)
  from inv have rs_eq: "queried_state Q p (robot_state (addMarker p i' t)) = ?rs"
    by (simp add: clear_steps_done_def addMarker_def p_eq)
  from inv have scene_eq: "planning_scene (addMarker p i' t) = planning_scene s"
    by (simp add: clear_steps_done_def addMarker_def)
  define t1 where "t1 = (addMarker p i' t)\<lparr>virtual_link_joint_states :=
                   \<lparr>js_name = virtual_link_names, js_position = virtual_link_values Q p\<rparr>,
                 robot_state := ?rs,
                 checkCollision_calls := checkCollision_calls (addMarker p i' t) @ [?rs]\<rparr>"
  define t2 where "t2 = t1\<lparr>collision_state_pub :=
                       (if collision_state_subscribers (addMarker p i' t) > 0
                        then collision_state_pub (addMarker p i' t) @ [?rs]
                        else collision_state_pub (addMarker p i' t)),
                     rosout := rosout (addMarker p i' t) @
                       [INFO_THROTTLE 1.0 ''Detected %d collisions. This message is throttled.''
                          (int (res_contacts r))]\<rparr>"
  have call: "isInCollision Q p (addMarker p i' t) = Returned (True, t2)"
    using r c by (simp add: isInCollision_ok [OF ok1] rs_eq scene_eq Let_def t1_def t2_def)
  have "roll_out_loop Q pc tw i tp s =
      Returned (t2\<lparr>safe_twist_pub := safe_twist_pub t2 @ [stop_twist tw],
                     marker_pub := marker_pub t2 @ [marker_array t2]\<rparr>)"
    unfolding run call by simp
  then show ?thesis
    using inv
    by (simp add: t1_def t2_def clear_steps_done_def addMarker_def p_eq)
qed


lemma loop_threw:
  assumes ok: "virtual_link_ok s"
    and bound: "unat i + Suc m \<le> roll_out_bound s"
    and clear: "\<forall>j. 1 \<le> j \<and> j \<le> m \<longrightarrow> step_clear Q s (test_pose_after tp pc j)"
    and fails: "step_fails Q s (test_pose_after tp pc (Suc m))"
  shows "\<exists>t. roll_out_loop Q pc tw i tp s = Threw t \<and>
     safe_twist_pub t = safe_twist_pub s \<and>
     marker_pub t = marker_pub s \<and>
     map marker_pose (marker_array t) =
       map marker_pose (marker_array s) @ map (test_pose_after tp pc) [1..<Suc (Suc m)] \<and>
     checkCollision_calls t = checkCollision_calls s @
       map (\<lambda>j. queried_state Q (test_pose_after tp pc j) (robot_state s)) [1..<Suc (Suc m)]"
proof -
  define p where "p = test_pose_after tp pc (Suc m)"
  from loop_last_query [OF ok bound clear, of tw]
  obtain i' t where inv: "clear_steps_done Q pc tp s m t"
    and run: "roll_out_loop Q pc tw i tp s =
       (case isInCollision Q p (addMarker p i' t) of
          Threw s' \<Rightarrow> Threw s'
        | Returned (in_collision, s') \<Rightarrow>
            if in_collision then
              Returned (s'\<lparr>safe_twist_pub := safe_twist_pub s' @ [stop_twist tw],
                           marker_pub := marker_pub s' @ [marker_array s']\<rparr>)
            else roll_out_loop Q pc tw (i' + 1) p s')"
    unfolding p_def by blast
  have p_eq: "affine_mult (test_pose_after tp pc m) pc = p"
    by (simp add: p_def)
  let ?rs = "queried_state Q p (robot_state s)"
  from fails have r: "planning_scene s collision_request ?rs = None"
    unfolding p_def by (simp add: step_fails_def step_query_def)
  from inv have ok1: "virtual_link_ok (addMarker p i' t)"
    by (simp add: clear_steps_done_def addMarker_virtual_link_ok)
  from inv have rs_eq: "queried_state Q p (robot_state (addMarker p i' t)) = ?rs"
    by (simp add: clear_steps_done_def addMarker_def p_eq)
  from inv have scene_eq: "planning_scene (addMarker p i' t) = planning_scene s"
    by (simp add: clear_steps_done_def addMarker_def)
  define t1 where "t1 = (addMarker p i' t)\<lparr>virtual_link_joint_states :=
                   \<lparr>js_name = virtual_link_names, js_position = virtual_link_values Q p\<rparr>,
                 robot_state := ?rs,
                 checkCollision_calls := checkCollision_calls (addMarker p i' t) @ [?rs]\<rparr>"
  have call: "isInCollision Q p (addMarker p i' t) = Threw t1"
    using r by (simp add: isInCollision_ok [OF ok1] rs_eq scene_eq Let_def t1_def)
  have "roll_out_loop Q pc tw i tp s = Threw t1"
    unfolding run call by simp
  then show ?thesis
    using inv
    by (simp add: t1_def clear_steps_done_def addMarker_def p_eq)
qed

lemma roll_out_state [simp]:
  "virtual_link_ok (s\<lparr>marker_array := ms\<rparr>) = virtual_link_ok s"
  "roll_out_bound (s\<lparr>marker_array := ms\<rparr>) = roll_out_bound s"
  "step_clear Q (s\<lparr>marker_array := ms\<rparr>) p = step_clear Q s p"
  "step_collides Q (s\<lparr>marker_array := ms\<rparr>) p = step_collides Q s p"
  "step_fails Q (s\<lparr>marker_array := ms\<rparr>) p = step_fails Q s p"
  by (simp_all add: virtual_link_ok_def roll_out_bound_def step_clear_def step_collides_def
      step_fails_def step_query_def)

lemma twistCallback_roll_out:
  assumes "\<not> p_pass_through s" and "robot_pose_ptr s = Some robot_pose"
  shows "twistCallback Q msg s =
     roll_out_loop Q (integrateTwist msg (p_roll_out_step_time s)) msg 0
       (poseMsgToEigen robot_pose) (s\<lparr>marker_array := []\<rparr>)"
  using assms by (simp add: twistCallback_def Let_def)

lemma twistCallback_blocked:
  assumes ok: "virtual_link_ok s"
    and on: "\<not> p_pass_through s" and pose: "robot_pose_ptr s = Some robot_pose"
    and k: "1 \<le> k" "k \<le> roll_out_bound s"
    and clear: "\<forall>j\<in>{1..<k}. step_clear Q s (predicted_pose s robot_pose msg j)"
    and hit: "step_collides Q s (predicted_pose s robot_pose msg k)"
  shows "\<exists>t. twistCallback Q msg s = Returned t \<and>
     safe_twist_pub t = safe_twist_pub s @ [stop_twist msg] \<and>
     marker_pub t = marker_pub s @ [marker_array t] \<and>
     map marker_pose (marker_array t) = map (predicted_pose s robot_pose msg) [1..<Suc k] \<and>
     checkCollision_calls t = checkCollision_calls s @
       map (\<lambda>j. queried_state Q (predicted_pose s robot_pose msg j) (robot_state s)) [1..<Suc k]"
proof -
  from k obtain m where m: "k = Suc m" by (cases k) auto
  let ?s0 = "s\<lparr>marker_array := []\<rparr>"
  let ?pc = "integrateTwist msg (p_roll_out_step_time s)"
  let ?tp = "poseMsgToEigen robot_pose"
  have 1: "virtual_link_ok ?s0" using ok by simp
  have 2: "unat (0 :: size_t) + Suc m \<le> roll_out_bound ?s0" using k m by simp
  have 3: "\<forall>j. 1 \<le> j \<and> j \<le> m \<longrightarrow> step_clear Q ?s0 (test_pose_after ?tp ?pc j)"
    using clear m by (auto simp: predicted_pose_def)
  have 4: "step_collides Q ?s0 (test_pose_after ?tp ?pc (Suc m))"
    using hit m by (simp add: predicted_pose_def)
  from loop_blocked [OF 1 2 3 4, of msg] show ?thesis
    unfolding twistCallback_roll_out [OF on pose] m
    by (simp add: predicted_pose_def [abs_def])
qed

lemma twistCallback_clear:
  assumes ok: "virtual_link_ok s"
    and on: "\<not> p_pass_through s" and pose: "robot_pose_ptr s = Some robot_pose"
    and clear: "\<forall>j\<in>{1..roll_out_bound s}. step_clear Q s (predicted_pose s robot_pose msg j)"
  shows "\<exists>t. twistCallback Q msg s = Returned t \<and>
     safe_twist_pub t = safe_twist_pub s @ [msg] \<and>
     marker_pub t = marker_pub s @ [marker_array t] \<and>
     map marker_pose (marker_array t) =
       map (predicted_pose s robot_pose msg) [1..<Suc (roll_out_bound s)] \<and>
     checkCollision_calls t = checkCollision_calls s @
       map (\<lambda>j. queried_state Q (predicted_pose s robot_pose msg j) (robot_state s))
         [1..<Suc (roll_out_bound s)]"
proof -
  let ?s0 = "s\<lparr>marker_array := []\<rparr>"
  let ?pc = "integrateTwist msg (p_roll_out_step_time s)"
  let ?tp = "poseMsgToEigen robot_pose"
  have 1: "virtual_link_ok ?s0" using ok by simp
  have 2: "unat (0 :: size_t) + roll_out_bound s = roll_out_bound ?s0" by simp
  have 3: "\<forall>j. 1 \<le> j \<and> j \<le> roll_out_bound s \<longrightarrow> step_clear Q ?s0 (test_pose_after ?tp ?pc j)"
    using clear by (auto simp: predicted_pose_def)
  from loop_all_clear [OF 1 2 3, of msg] show ?thesis
    unfolding twistCallback_roll_out [OF on pose]
    by (auto simp: predicted_pose_def [abs_def] clear_steps_done_def)
qed

lemma twistCallback_threw:
  assumes ok: "virtual_link_ok s"
    and on: "\<not> p_pass_through s" and pose: "robot_pose_ptr s = Some robot_pose"
    and k: "1 \<le> k" "k \<le> roll_out_bound s"
    and clear: "\<forall>j\<in>{1..<k}. step_clear Q s (predicted_pose s robot_pose msg j)"
    and fails: "step_fails Q s (predicted_pose s robot_pose msg k)"
  shows "\<exists>t. twistCallback Q msg s = Threw t \<and>
     safe_twist_pub t = safe_twist_pub s \<and>
     marker_pub t = marker_pub s \<and>
     map marker_pose (marker_array t) = map (predicted_pose s robot_pose msg) [1..<Suc k] \<and>
     checkCollision_calls t = checkCollision_calls s @
       map (\<lambda>j. queried_state Q (predicted_pose s robot_pose msg j) (robot_state s)) [1..<Suc k]"
proof -
  from k obtain m where m: "k = Suc m" by (cases k) auto
  let ?s0 = "s\<lparr>marker_array := []\<rparr>"
  let ?pc = "integrateTwist msg (p_roll_out_step_time s)"
  let ?tp = "poseMsgToEigen robot_pose"
  have 1: "virtual_link_ok ?s0" using ok by simp
  have 2: "unat (0 :: size_t) + Suc m \<le> roll_out_bound ?s0" using k m by simp
  have 3: "\<forall>j. 1 \<le> j \<and> j \<le> m \<longrightarrow> step_clear Q ?s0 (test_pose_after ?tp ?pc j)"
    using clear m by (auto simp: predicted_pose_def)
  have 4: "step_fails Q ?s0 (test_pose_after ?tp ?pc (Suc m))"
    using fails m by (simp add: predicted_pose_def)
  from loop_threw [OF 1 2 3 4, of msg] show ?thesis
    unfolding twistCallback_roll_out [OF on pose] m
    by (simp add: predicted_pose_def [abs_def])
qed

lemma isInCollision_calls:
  "length (checkCollision_calls (checked_state (isInCollision Q pose s))) =
     Suc (length (checkCollision_calls s))"
  by (simp add: isInCollision_def Let_def split: option.splits)

lemma roll_out_loop_calls:
  "length (checkCollision_calls s) \<le>
     length (checkCollision_calls (final_state (roll_out_loop Q pc tw i tp s)))"
proof (induction Q pc tw i tp s rule: roll_out_loop.induct)
  case (1 Q pc tw i tp s)
  let ?p = "affine_mult tp pc"
  show ?case
  proof (cases "i < scast (p_roll_out_steps s)")
    case False
    then show ?thesis by (simp add: roll_out_loop_exit)
  next
    case True
    note it = roll_out_loop_iterate [OF True, of Q pc tw tp]
    have len: "length (checkCollision_calls (checked_state (isInCollision Q ?p (addMarker ?p i s)))) =
        Suc (length (checkCollision_calls s))"
      by (simp add: isInCollision_calls) (simp add: addMarker_def)
    show ?thesis
    proof (cases "isInCollision Q ?p (addMarker ?p i s)")
      case (Threw s')
      with it len show ?thesis by simp
    next
      case (Returned x)
      obtain b s' where x: "x = (b, s')" by (cases x)
      show ?thesis
      proof (cases b)
        case True
        with it len Returned x show ?thesis by simp
      next
        case False
        from "1.IH" [OF \<open>i < scast (p_roll_out_steps s)\<close> Returned x [symmetric] False]
        have "length (checkCollision_calls s') \<le>
            length (checkCollision_calls (final_state (roll_out_loop Q pc tw (i + 1) ?p s')))" .
        with it len Returned x False show ?thesis by simp
      qed
    qed
  qed
qed

lemma roll_out_first_step:
  assumes "i < scast (p_roll_out_steps s)"
  shows "length (checkCollision_calls s) <
     length (checkCollision_calls (final_state (roll_out_loop Q pc tw i tp s)))"
proof -
  let ?p = "affine_mult tp pc"
  note it = roll_out_loop_iterate [OF assms, of Q pc tw tp]
  have len: "length (checkCollision_calls (checked_state (isInCollision Q ?p (addMarker ?p i s)))) =
      Suc (length (checkCollision_calls s))"
    by (simp add: isInCollision_calls) (simp add: addMarker_def)
  show ?thesis
  proof (cases "isInCollision Q ?p (addMarker ?p i s)")
    case (Threw s')
    with it len show ?thesis by simp
  next
    case (Returned x)
    obtain b s' where x: "x = (b, s')" by (cases x)
    show ?thesis
    proof (cases b)
      case True
      with it len Returned x show ?thesis by simp
    next
      case False
      from roll_out_loop_calls [of s' Q pc tw "i + 1" ?p] it len Returned x False
      show ?thesis by simp
    qed
  qed
qed

text \<open>Every callback keeps \<open>virtual_link_ok\<close>.\<close>

lemma roll_out_loop_keeps_ok:
  "virtual_link_ok s \<Longrightarrow> virtual_link_ok (final_state (roll_out_loop Q pc tw i tp s))"
proof (induction Q pc tw i tp s rule: roll_out_loop.induct)
  case (1 Q pc tw i tp s)
  let ?p = "affine_mult tp pc"
  show ?case
  proof (cases "i < scast (p_roll_out_steps s)")
    case False
    with "1.prems" show ?thesis
      by (simp add: roll_out_loop_exit virtual_link_ok_def)
  next
    case True
    note it = roll_out_loop_iterate [OF True, of Q pc tw tp]
    from "1.prems" have "virtual_link_ok (addMarker ?p i s)"
      by (simp add: addMarker_virtual_link_ok)
    then have ok: "virtual_link_ok (checked_state (isInCollision Q ?p (addMarker ?p i s)))"
      by (rule isInCollision_keeps_ok)
    show ?thesis
    proof (cases "isInCollision Q ?p (addMarker ?p i s)")
      case (Threw s')
      with it ok show ?thesis by simp
    next
      case (Returned x)
      obtain b s' where x: "x = (b, s')" by (cases x)
      show ?thesis
      proof (cases b)
        case True
        with it ok Returned x show ?thesis by (simp add: virtual_link_ok_def)
      next
        case False
        from ok Returned x have "virtual_link_ok s'" by simp
        from "1.IH" [OF \<open>i < scast (p_roll_out_steps s)\<close> Returned x [symmetric] False this]
        show ?thesis using it Returned x False by simp
      qed
    qed
  qed
qed

lemma callbacks_keep_ok:
  assumes "virtual_link_ok s"
  shows "virtual_link_ok (robotPoseCallback pose_msg s)"
    and "virtual_link_ok (jointStatesCallback joint_msg s)"
    and "virtual_link_ok (dynRecParamCallback config level s)"
    and "virtual_link_ok (final_state (twistCallback Q msg s))"
proof -
  show "virtual_link_ok (robotPoseCallback pose_msg s)"
    and "virtual_link_ok (jointStatesCallback joint_msg s)"
    and "virtual_link_ok (dynRecParamCallback config level s)"
    using assms
    by (simp_all add: virtual_link_ok_def robotPoseCallback_def jointStatesCallback_def
        dynRecParamCallback_def)
  show "virtual_link_ok (final_state (twistCallback Q msg s))"
  proof (cases "p_pass_through s")
    case True
    with assms show ?thesis by (simp add: twistCallback_def virtual_link_ok_def)
  next
    case False
    show ?thesis
    proof (cases "robot_pose_ptr s")
      case None
      with False assms show ?thesis by (simp add: twistCallback_def virtual_link_ok_def)
    next
      case (Some robot_pose)
      from assms have "virtual_link_ok (s\<lparr>marker_array := []\<rparr>)" by simp
      then show ?thesis
        unfolding twistCallback_roll_out [OF False Some] by (rule roll_out_loop_keeps_ok)
    qed
  qed
qed


section \<open>The step count as a \<^verbatim>\<open>size_t\<close>\<close>

lemma scast_negative:
  assumes "sint (w :: 32 word) < 0"
  shows "int (unat (scast w :: 64 word)) = 2 ^ 64 + sint w"
proof -
  have lo: "- (2 ^ 31) \<le> sint w" using sint_ge [of w] by simp
  have "uint (scast w :: 64 word) = sint w mod 2 ^ LENGTH(64)"
    by (simp only: scast_eq uint_word_of_int)
  then have "uint (scast w :: 64 word) = sint w mod 2 ^ 64"
    by simp
  also have "\<dots> = (sint w + 2 ^ 64) mod 2 ^ 64" by simp
  also have "\<dots> = sint w + 2 ^ 64"
    using lo assms by (intro mod_pos_pos_trivial) simp_all
  finally show ?thesis by simp
qed

lemma scast_nonnegative:
  assumes "0 \<le> sint (w :: 32 word)"
  shows "int (unat (scast w :: 64 word)) = sint w"
proof -
  have hi: "sint w < 2 ^ 31" using sint_lt [of w] by simp
  have "uint (scast w :: 64 word) = sint w mod 2 ^ LENGTH(64)"
    by (simp only: scast_eq uint_word_of_int)
  then have "uint (scast w :: 64 word) = sint w mod 2 ^ 64"
    by simp
  also have "\<dots> = sint w"
    using hi assms by (intro mod_pos_pos_trivial) simp_all
  finally show ?thesis by simp
qed

section \<open>The filter: the roll-out\<close>

lemma stop_twist_zero:
  "stop_twist msg =
     \<lparr>twist_linear = \<lparr>vec_x = 0, vec_y = 0, vec_z = 0\<rparr>,
      twist_angular = \<lparr>vec_x = 0, vec_y = 0, vec_z = 0\<rparr>\<rparr>"
  by (cases msg) (simp add: stop_twist_def)

lemma roll_out_bound_nonnegative:
  "0 \<le> sint (p_roll_out_steps s) \<Longrightarrow> int (roll_out_bound s) = sint (p_roll_out_steps s)"
  unfolding roll_out_bound_def by (rule scast_nonnegative)

lemma example_node_fields:
  "\<not> p_pass_through example_node" "robot_pose_ptr example_node = Some origin_pose"
  "roll_out_bound example_node = 10" "p_roll_out_step_time example_node = 1 / 2"
  "planning_scene example_node = obstacle_scene (\<lambda>x. 3 / 2 \<le> x)"
  "safe_twist_pub example_node = []" "checkCollision_calls example_node = []"
  "marker_pub example_node = []"
  by (simp_all add: example_node_def roll_out_bound_def)

lemma free_node_fields:
  "virtual_link_ok free_node"
  "\<not> p_pass_through free_node" "robot_pose_ptr free_node = Some origin_pose"
  "roll_out_bound free_node = 4" "p_roll_out_step_time free_node = 1 / 2"
  "planning_scene free_node = obstacle_scene (\<lambda>x. False)"
  "safe_twist_pub free_node = []" "checkCollision_calls free_node = []"
  by (simp_all add: free_node_def example_node_def roll_out_bound_def virtual_link_ok_def
      constructed_virtual_link_joint_states_def)

lemma zero_horizon_node_fields:
  "virtual_link_ok zero_horizon_node"
  "\<not> p_pass_through zero_horizon_node" "robot_pose_ptr zero_horizon_node = Some origin_pose"
  "roll_out_bound zero_horizon_node = 0" "p_roll_out_step_time zero_horizon_node = 1 / 2"
  "planning_scene zero_horizon_node = obstacle_scene (\<lambda>x. True)"
  "safe_twist_pub zero_horizon_node = []" "checkCollision_calls zero_horizon_node = []"
  by (simp_all add: zero_horizon_node_def example_node_def roll_out_bound_def virtual_link_ok_def
      constructed_virtual_link_joint_states_def)

text \<open>
  C1. For every command and every roll-out in which step \<open>k\<close>, with \<open>1 \<le> k\<close> and \<open>k\<close>
  at most the horizon, is the first whose predicted pose is reported in collision, the
  filter publishes a command whose six linear and angular fields are zero (a
  \<^verbatim>\<open>Twist\<close> has no other field), and the collision check is made for the steps 1 to
  \<open>k\<close> and for no step after \<open>k\<close>: the scene is queried exactly \<open>k\<close> times, for the
  first \<open>k\<close> predicted poses in order, and exactly these \<open>k\<close> poses are recorded and
  published as markers. The horizon is the bound as the loop reads it,
  \<open>roll_out_bound\<close>, which is the step count when that is not negative
  (\<open>roll_out_bound_nonnegative\<close>).
\<close>

theorem first_collision_stops_roll_out:
  assumes "virtual_link_ok s"
    and "\<not> p_pass_through s" and "robot_pose_ptr s = Some robot_pose"
    and "1 \<le> k" and "k \<le> roll_out_bound s"
    and "\<forall>j\<in>{1..<k}. step_clear Q s (predicted_pose s robot_pose msg j)"
    and "step_collides Q s (predicted_pose s robot_pose msg k)"
  shows "\<exists>t. twistCallback Q msg s = Returned t \<and>
     safe_twist_pub t = safe_twist_pub s @
       [\<lparr>twist_linear = \<lparr>vec_x = 0, vec_y = 0, vec_z = 0\<rparr>,
         twist_angular = \<lparr>vec_x = 0, vec_y = 0, vec_z = 0\<rparr>\<rparr>] \<and>
     checkCollision_calls t = checkCollision_calls s @
       map (\<lambda>j. queried_state Q (predicted_pose s robot_pose msg j) (robot_state s)) [1..<Suc k] \<and>
     map marker_pose (marker_array t) = map (predicted_pose s robot_pose msg) [1..<Suc k] \<and>
     marker_pub t = marker_pub s @ [marker_array t]"
  using twistCallback_blocked [OF assms] by (auto simp: stop_twist_zero)

theorem first_collision_stops_roll_out_witness:
  "virtual_link_ok example_node \<and> \<not> p_pass_through example_node \<and>
   robot_pose_ptr example_node = Some origin_pose \<and> 3 \<le> roll_out_bound example_node \<and>
   step_clear identity_Quaterniond_of example_node (predicted_pose example_node origin_pose forward_cmd 1) \<and>
   step_clear identity_Quaterniond_of example_node (predicted_pose example_node origin_pose forward_cmd 2) \<and>
   step_collides identity_Quaterniond_of example_node (predicted_pose example_node origin_pose forward_cmd 3) \<and>
   (\<exists>t. twistCallback identity_Quaterniond_of forward_cmd example_node = Returned t \<and>
      safe_twist_pub t =
        [\<lparr>twist_linear = \<lparr>vec_x = 0, vec_y = 0, vec_z = 0\<rparr>,
          twist_angular = \<lparr>vec_x = 0, vec_y = 0, vec_z = 0\<rparr>\<rparr>] \<and>
      length (checkCollision_calls t) = 3 \<and>
      map marker_pose (marker_array t) =
        [Translation3d (1 / 2) 0 0, Translation3d 1 0 0, Translation3d (3 / 2) 0 0])"
proof -
  note f = example_node_fields
  have clear: "\<forall>j\<in>{1..<3}. step_clear identity_Quaterniond_of example_node
      (predicted_pose example_node origin_pose forward_cmd j)"
    by (auto simp: step_obstacle [OF f(5)] predicted_pose_forward f(4) Translation3d_def)
  have hit: "step_collides identity_Quaterniond_of example_node
      (predicted_pose example_node origin_pose forward_cmd 3)"
    by (simp add: step_obstacle [OF f(5)] predicted_pose_forward f(4) Translation3d_def)
  have k: "(1::nat) \<le> 3" "3 \<le> roll_out_bound example_node"
    by (simp_all add: f)
  from first_collision_stops_roll_out [OF example_node_ok f(1) f(2) k clear hit]
  obtain t where t: "twistCallback identity_Quaterniond_of forward_cmd example_node = Returned t"
    "safe_twist_pub t = safe_twist_pub example_node @
       [\<lparr>twist_linear = \<lparr>vec_x = 0, vec_y = 0, vec_z = 0\<rparr>,
         twist_angular = \<lparr>vec_x = 0, vec_y = 0, vec_z = 0\<rparr>\<rparr>]"
    "checkCollision_calls t = checkCollision_calls example_node @
       map (\<lambda>j. queried_state identity_Quaterniond_of
          (predicted_pose example_node origin_pose forward_cmd j) (robot_state example_node)) [1..<Suc 3]"
    "map marker_pose (marker_array t) = map (predicted_pose example_node origin_pose forward_cmd) [1..<Suc 3]"
    by blast
  have "[1..<Suc 3] = [1, 2, 3]" by (simp add: upt_rec)
  with t have "safe_twist_pub t =
        [\<lparr>twist_linear = \<lparr>vec_x = 0, vec_y = 0, vec_z = 0\<rparr>,
          twist_angular = \<lparr>vec_x = 0, vec_y = 0, vec_z = 0\<rparr>\<rparr>]"
    and "length (checkCollision_calls t) = 3"
    and "map marker_pose (marker_array t) =
        [Translation3d (1 / 2) 0 0, Translation3d 1 0 0, Translation3d (3 / 2) 0 0]"
    by (simp_all add: f predicted_pose_forward)
  with t(1) clear hit k f example_node_ok show ?thesis by auto
qed


text \<open>
  C8. For every command and every roll-out in which no evaluated step is in collision,
  the filter publishes the original command unchanged, after one query for each step of
  the horizon; with a horizon of 0 no step is evaluated and the command is published.
\<close>

theorem clear_roll_out_forwards_command:
  assumes "virtual_link_ok s"
    and "\<not> p_pass_through s" and "robot_pose_ptr s = Some robot_pose"
    and "\<forall>j\<in>{1..roll_out_bound s}. step_clear Q s (predicted_pose s robot_pose msg j)"
  shows "\<exists>t. twistCallback Q msg s = Returned t \<and>
     safe_twist_pub t = safe_twist_pub s @ [msg] \<and>
     checkCollision_calls t = checkCollision_calls s @
       map (\<lambda>j. queried_state Q (predicted_pose s robot_pose msg j) (robot_state s))
         [1..<Suc (roll_out_bound s)] \<and>
     map marker_pose (marker_array t) =
       map (predicted_pose s robot_pose msg) [1..<Suc (roll_out_bound s)] \<and>
     marker_pub t = marker_pub s @ [marker_array t]"
  using twistCallback_clear [OF assms] by auto

theorem clear_roll_out_forwards_command_witness:
  "virtual_link_ok free_node \<and> \<not> p_pass_through free_node \<and>
   robot_pose_ptr free_node = Some origin_pose \<and> roll_out_bound free_node = 4 \<and>
   step_clear identity_Quaterniond_of free_node (predicted_pose free_node origin_pose forward_cmd 1) \<and>
   step_clear identity_Quaterniond_of free_node (predicted_pose free_node origin_pose forward_cmd 2) \<and>
   step_clear identity_Quaterniond_of free_node (predicted_pose free_node origin_pose forward_cmd 3) \<and>
   step_clear identity_Quaterniond_of free_node (predicted_pose free_node origin_pose forward_cmd 4) \<and>
   (\<exists>t. twistCallback identity_Quaterniond_of forward_cmd free_node = Returned t \<and>
      safe_twist_pub t = [forward_cmd] \<and>
      length (checkCollision_calls t) = 4 \<and>
      map marker_pose (marker_array t) =
        [Translation3d (1 / 2) 0 0, Translation3d 1 0 0, Translation3d (3 / 2) 0 0,
         Translation3d 2 0 0]) \<and>
   roll_out_bound zero_horizon_node = 0 \<and>
   step_collides identity_Quaterniond_of zero_horizon_node
     (predicted_pose zero_horizon_node origin_pose forward_cmd 1) \<and>
   (\<exists>t. twistCallback identity_Quaterniond_of forward_cmd zero_horizon_node = Returned t \<and>
      safe_twist_pub t = [forward_cmd] \<and> checkCollision_calls t = [])"
proof -
  note f = free_node_fields and z = zero_horizon_node_fields
  have clear: "step_clear identity_Quaterniond_of free_node (predicted_pose free_node origin_pose forward_cmd j)"
    for j
    by (simp add: step_obstacle [OF f(6)])
  then have all: "\<forall>j\<in>{1..roll_out_bound free_node}.
      step_clear identity_Quaterniond_of free_node (predicted_pose free_node origin_pose forward_cmd j)"
    by simp
  from clear_roll_out_forwards_command [OF f(1) f(2) f(3) all]
  obtain t where t: "twistCallback identity_Quaterniond_of forward_cmd free_node = Returned t"
    "safe_twist_pub t = safe_twist_pub free_node @ [forward_cmd]"
    "checkCollision_calls t = checkCollision_calls free_node @
       map (\<lambda>j. queried_state identity_Quaterniond_of
          (predicted_pose free_node origin_pose forward_cmd j) (robot_state free_node))
         [1..<Suc (roll_out_bound free_node)]"
    "map marker_pose (marker_array t) =
       map (predicted_pose free_node origin_pose forward_cmd) [1..<Suc (roll_out_bound free_node)]"
    by blast
  have "[1..<Suc 4] = [1, 2, 3, 4]" by (simp add: upt_rec)
  with t have r: "safe_twist_pub t = [forward_cmd]"
    "length (checkCollision_calls t) = 4"
    "map marker_pose (marker_array t) =
        [Translation3d (1 / 2) 0 0, Translation3d 1 0 0, Translation3d (3 / 2) 0 0,
         Translation3d 2 0 0]"
    by (simp_all add: f predicted_pose_forward)
  have free: "\<exists>t. twistCallback identity_Quaterniond_of forward_cmd free_node = Returned t \<and>
      safe_twist_pub t = [forward_cmd] \<and>
      length (checkCollision_calls t) = 4 \<and>
      map marker_pose (marker_array t) =
        [Translation3d (1 / 2) 0 0, Translation3d 1 0 0, Translation3d (3 / 2) 0 0,
         Translation3d 2 0 0]"
    by (intro exI [of _ t] conjI t(1) r)
  have none: "\<forall>j\<in>{1..roll_out_bound zero_horizon_node}.
      step_clear identity_Quaterniond_of zero_horizon_node
        (predicted_pose zero_horizon_node origin_pose forward_cmd j)"
    by (simp add: z)
  from clear_roll_out_forwards_command [OF z(1) z(2) z(3) none]
  have zero: "\<exists>t. twistCallback identity_Quaterniond_of forward_cmd zero_horizon_node = Returned t \<and>
      safe_twist_pub t = [forward_cmd] \<and> checkCollision_calls t = []"
    by (auto simp: z)
  have wall: "step_collides identity_Quaterniond_of zero_horizon_node
     (predicted_pose zero_horizon_node origin_pose forward_cmd 1)"
    by (simp add: step_obstacle [OF z(6)])
  show ?thesis
    by (intro conjI f(1-4) clear free z(4) wall zero)
qed

section \<open>A query that does not complete\<close>

lemma failing_node_fields:
  "virtual_link_ok failing_node"
  "\<not> p_pass_through failing_node" "robot_pose_ptr failing_node = Some origin_pose"
  "roll_out_bound failing_node = 10" "p_roll_out_step_time failing_node = 1 / 2"
  "planning_scene failing_node = failing_scene"
  "safe_twist_pub failing_node = []" "checkCollision_calls failing_node = []"
  "marker_pub failing_node = []"
  by (simp_all add: failing_node_def example_node_def roll_out_bound_def virtual_link_ok_def
      constructed_virtual_link_joint_states_def)

lemma step_fails_failing_scene:
  "planning_scene s = failing_scene \<Longrightarrow> step_fails Q s pose"
  by (simp add: step_fails_def step_query_def failing_scene_def)

text \<open>
  C3, as the claim states it, fails: when the query of the first step does not
  complete, the callback is left by the exception and nothing is published on the
  command output, so no zero command is emitted.
\<close>

theorem failed_query_emits_no_command:
  "step_fails identity_Quaterniond_of failing_node
     (predicted_pose failing_node origin_pose forward_cmd 1) \<and>
   twistCallback identity_Quaterniond_of forward_cmd failing_node =
     Threw (final_state (twistCallback identity_Quaterniond_of forward_cmd failing_node)) \<and>
   safe_twist_pub (final_state (twistCallback identity_Quaterniond_of forward_cmd failing_node)) = []"
proof -
  note f = failing_node_fields
  have fails: "step_fails identity_Quaterniond_of failing_node
     (predicted_pose failing_node origin_pose forward_cmd 1)"
    by (rule step_fails_failing_scene) (rule f)
  have none: "\<forall>j\<in>{1..<1}. step_clear identity_Quaterniond_of failing_node
     (predicted_pose failing_node origin_pose forward_cmd j)"
    by simp
  have k: "(1::nat) \<le> 1" "1 \<le> roll_out_bound failing_node"
    by (simp_all add: f)
  from twistCallback_threw [OF f(1) f(2) f(3) k none fails]
  obtain t where "twistCallback identity_Quaterniond_of forward_cmd failing_node = Threw t"
    and "safe_twist_pub t = safe_twist_pub failing_node"
    by blast
  with fails show ?thesis by (simp add: f)
qed

text \<open>
  C3, amended. For every roll-out in which the collision query does not complete at
  step \<open>k\<close>, the steps before it being clear, the failure is not treated as clear (the
  original command is not forwarded) and it leaves the callback as an exception that
  nothing catches; the filter does not emit a zero command: nothing is published on the
  command output or on the marker output for that roll-out, and no step after \<open>k\<close> is
  queried.
\<close>

theorem failed_query_aborts_roll_out:
  assumes "virtual_link_ok s"
    and "\<not> p_pass_through s" and "robot_pose_ptr s = Some robot_pose"
    and "1 \<le> k" and "k \<le> roll_out_bound s"
    and "\<forall>j\<in>{1..<k}. step_clear Q s (predicted_pose s robot_pose msg j)"
    and "step_fails Q s (predicted_pose s robot_pose msg k)"
  shows "\<exists>t. twistCallback Q msg s = Threw t \<and>
     safe_twist_pub t = safe_twist_pub s \<and>
     marker_pub t = marker_pub s \<and>
     checkCollision_calls t = checkCollision_calls s @
       map (\<lambda>j. queried_state Q (predicted_pose s robot_pose msg j) (robot_state s)) [1..<Suc k]"
  using twistCallback_threw [OF assms] by auto

theorem failed_query_aborts_roll_out_witness:
  "virtual_link_ok failing_node \<and> \<not> p_pass_through failing_node \<and>
   robot_pose_ptr failing_node = Some origin_pose \<and> 1 \<le> roll_out_bound failing_node \<and>
   step_fails identity_Quaterniond_of failing_node
     (predicted_pose failing_node origin_pose forward_cmd 1) \<and>
   (\<exists>t. twistCallback identity_Quaterniond_of forward_cmd failing_node = Threw t \<and>
      safe_twist_pub t = [] \<and> marker_pub t = [] \<and> length (checkCollision_calls t) = 1)"
proof -
  note f = failing_node_fields
  have fails: "step_fails identity_Quaterniond_of failing_node
     (predicted_pose failing_node origin_pose forward_cmd 1)"
    by (rule step_fails_failing_scene) (rule f)
  have none: "\<forall>j\<in>{1..<1}. step_clear identity_Quaterniond_of failing_node
     (predicted_pose failing_node origin_pose forward_cmd j)"
    by simp
  have k: "(1::nat) \<le> 1" "1 \<le> roll_out_bound failing_node"
    by (simp_all add: f)
  from failed_query_aborts_roll_out [OF f(1) f(2) f(3) k none fails]
  obtain t where t: "twistCallback identity_Quaterniond_of forward_cmd failing_node = Threw t"
    "safe_twist_pub t = safe_twist_pub failing_node" "marker_pub t = marker_pub failing_node"
    "checkCollision_calls t = checkCollision_calls failing_node @
       map (\<lambda>j. queried_state identity_Quaterniond_of
         (predicted_pose failing_node origin_pose forward_cmd j) (robot_state failing_node)) [1..<Suc 1]"
    by blast
  then have r: "safe_twist_pub t = []" "marker_pub t = []" "length (checkCollision_calls t) = 1"
    by (simp_all add: f)
  have ex: "\<exists>t. twistCallback identity_Quaterniond_of forward_cmd failing_node = Threw t \<and>
      safe_twist_pub t = [] \<and> marker_pub t = [] \<and> length (checkCollision_calls t) = 1"
    by (intro exI [of _ t] conjI t(1) r)
  show ?thesis
    by (intro conjI f(1-3) k(2) fails ex)
qed

section \<open>A negative horizon\<close>

lemma step_obstacle_free: "planning_scene s = obstacle_scene (\<lambda>x. False) \<Longrightarrow> step_clear Q s pose"
  by (simp add: step_obstacle)

lemma negative_horizon_fields:
  "sint (p_roll_out_steps negative_horizon_node) = - 1"
  "\<not> p_pass_through negative_horizon_node"
  "robot_pose_ptr negative_horizon_node = Some origin_pose"
  "checkCollision_calls negative_horizon_node = []"
  "sint (p_roll_out_steps negative_horizon_free_node) = - 1"
  "\<not> p_pass_through negative_horizon_free_node"
  "robot_pose_ptr negative_horizon_free_node = Some origin_pose"
  "checkCollision_calls negative_horizon_free_node = []"
  "virtual_link_ok negative_horizon_free_node"
  "planning_scene negative_horizon_free_node = obstacle_scene (\<lambda>x. False)"
  by (simp_all add: negative_horizon_node_def negative_horizon_free_node_def example_node_def
      virtual_link_ok_def constructed_virtual_link_joint_states_def)

text \<open>
  C10. For every negative step count, the comparison of the loop reads the count as an
  unsigned integer modulo \<open>2 ^ 64\<close>: the counter is below the bound exactly when it is
  below \<open>2 ^ 64\<close> plus the (negative) count. So the loop evaluates at least one step,
  and \<open>2 ^ 64\<close> plus the count steps when none of them collides.
\<close>

theorem negative_horizon_wraps_to_unsigned:
  assumes "sint (p_roll_out_steps s) < 0"
    and "\<not> p_pass_through s" and "robot_pose_ptr s = Some robot_pose"
  shows "int (roll_out_bound s) = 2 ^ 64 + sint (p_roll_out_steps s) \<and>
     (\<forall>i :: size_t. i < scast (p_roll_out_steps s) \<longleftrightarrow>
        int (unat i) < 2 ^ 64 + sint (p_roll_out_steps s)) \<and>
     length (checkCollision_calls s) <
       length (checkCollision_calls (final_state (twistCallback Q msg s))) \<and>
     (virtual_link_ok s \<and>
      (\<forall>j\<in>{1..roll_out_bound s}. step_clear Q s (predicted_pose s robot_pose msg j)) \<longrightarrow>
        int (length (checkCollision_calls (final_state (twistCallback Q msg s)))) =
          int (length (checkCollision_calls s)) + 2 ^ 64 + sint (p_roll_out_steps s))"
proof -
  have bound: "int (roll_out_bound s) = 2 ^ 64 + sint (p_roll_out_steps s)"
    unfolding roll_out_bound_def using assms(1) by (rule scast_negative)
  have cmp: "i < scast (p_roll_out_steps s) \<longleftrightarrow> int (unat i) < 2 ^ 64 + sint (p_roll_out_steps s)"
    for i :: size_t
    by (simp only: size_t_less_iff bound [symmetric] of_nat_less_iff)
  have "- (2 ^ 31) \<le> sint (p_roll_out_steps s)"
    using sint_ge [of "p_roll_out_steps s"] by simp
  with bound have "0 < int (roll_out_bound s)" by simp
  then have "0 < roll_out_bound s" by simp
  then have "(0 :: size_t) < scast (p_roll_out_steps s)"
    by (simp add: size_t_less_iff)
  then have "(0 :: size_t) < scast (p_roll_out_steps (s\<lparr>marker_array := []\<rparr>))"
    by simp
  from roll_out_first_step [OF this]
  have first: "length (checkCollision_calls s) <
       length (checkCollision_calls (final_state (twistCallback Q msg s)))"
    unfolding twistCallback_roll_out [OF assms(2) assms(3)] by simp
  have all: "int (length (checkCollision_calls (final_state (twistCallback Q msg s)))) =
          int (length (checkCollision_calls s)) + 2 ^ 64 + sint (p_roll_out_steps s)"
    if ok: "virtual_link_ok s"
      and clear: "\<forall>j\<in>{1..roll_out_bound s}. step_clear Q s (predicted_pose s robot_pose msg j)"
  proof -
    from twistCallback_clear [OF ok assms(2) assms(3) clear]
    obtain t where "twistCallback Q msg s = Returned t"
      and "checkCollision_calls t = checkCollision_calls s @
       map (\<lambda>j. queried_state Q (predicted_pose s robot_pose msg j) (robot_state s))
         [1..<Suc (roll_out_bound s)]"
      by blast
    then have "length (checkCollision_calls (final_state (twistCallback Q msg s))) =
        length (checkCollision_calls s) + roll_out_bound s"
      by simp
    with bound show ?thesis by simp
  qed
  from bound cmp first all show ?thesis by blast
qed

theorem negative_horizon_wraps_to_unsigned_witness:
  "sint (p_roll_out_steps negative_horizon_node) < 0 \<and>
   \<not> p_pass_through negative_horizon_node \<and>
   robot_pose_ptr negative_horizon_node = Some origin_pose \<and>
   roll_out_bound negative_horizon_node = 18446744073709551615 \<and>
   0 < length (checkCollision_calls
     (final_state (twistCallback identity_Quaterniond_of forward_cmd negative_horizon_node))) \<and>
   virtual_link_ok negative_horizon_free_node \<and>
   length (checkCollision_calls
     (final_state (twistCallback identity_Quaterniond_of forward_cmd negative_horizon_free_node))) =
     18446744073709551615"
proof -
  note f = negative_horizon_fields
  have neg: "sint (p_roll_out_steps negative_horizon_node) < 0"
    "sint (p_roll_out_steps negative_horizon_free_node) < 0"
    by (simp_all add: f)
  note w = negative_horizon_wraps_to_unsigned
    [OF neg(1) f(2) f(3), of identity_Quaterniond_of forward_cmd]
  note v = negative_horizon_wraps_to_unsigned
    [OF neg(2) f(6) f(7), of identity_Quaterniond_of forward_cmd]
  from w have "int (roll_out_bound negative_horizon_node) = 2 ^ 64 + (- 1)"
    by (simp only: f(1))
  then have b: "roll_out_bound negative_horizon_node = 18446744073709551615"
    by simp
  from w have c: "0 < length (checkCollision_calls
     (final_state (twistCallback identity_Quaterniond_of forward_cmd negative_horizon_node)))"
    by (simp add: f)
  have clear: "\<forall>j\<in>{1..roll_out_bound negative_horizon_free_node}.
      step_clear identity_Quaterniond_of negative_horizon_free_node
        (predicted_pose negative_horizon_free_node origin_pose forward_cmd j)"
    by (simp add: step_obstacle_free [OF f(10)])
  with v f(9) have "int (length (checkCollision_calls
     (final_state (twistCallback identity_Quaterniond_of forward_cmd negative_horizon_free_node)))) =
     int (length (checkCollision_calls negative_horizon_free_node)) + 2 ^ 64 +
       sint (p_roll_out_steps negative_horizon_free_node)"
    by blast
  then have d: "length (checkCollision_calls
     (final_state (twistCallback identity_Quaterniond_of forward_cmd negative_horizon_free_node))) =
     18446744073709551615"
    by (simp add: f)
  show ?thesis
    by (intro conjI neg(1) f(2) f(3) b c f(9) d)
qed

section \<open>Configuration updates\<close>





section \<open>The motion predictor: straight and arc\<close>

lemma sin1: "0 < sin (1::real)"
  by (rule sin_gt_zero_02) simp_all

lemma cos1: "cos (1::real) < 1"
  using cos_double_less_one [of "1 / 2"] by simp

lemma integrateTwist_arc:
  assumes "\<not> \<bar>vec_z (twist_angular msg)\<bar> < 0.0001"
  shows "integrateTwist msg step_time =
     (let angle = vec_z (twist_angular msg) * step_time;
          radius = vec_x (twist_linear msg) * step_time / angle
      in \<lparr>linear_part = linear_part (AngleAxis_UnitZ angle),
          translation = mat_vec (linear_part (AngleAxis_UnitZ angle))
             \<lparr>vec_x = sin angle * radius, vec_y = radius - cos angle * radius, vec_z = 0\<rparr>\<rparr>)"
  using assms
  by (simp add: integrateTwist_def int_vec_of_def Let_def affine_mult_def AngleAxis_UnitZ_def
      Translation3d_def mat_mult_def mat_vec_def vec_add_def Identity3d_def Zero3_def)

lemma integrateTwist_straight:
  assumes "\<bar>vec_z (twist_angular msg)\<bar> < 0.0001"
  shows "integrateTwist msg step_time =
     \<lparr>linear_part = Identity3d,
      translation = \<lparr>vec_x = vec_x (twist_linear msg) * step_time, vec_y = 0, vec_z = 0\<rparr>\<rparr>"
  using assms
  by (simp add: integrateTwist_def int_vec_of_def Let_def affine_mult_def AngleAxis_UnitZ_def
      Translation3d_def mat_mult_def mat_vec_def vec_add_def Identity3d_def Zero3_def)

lemma arc_step:
  "integrateTwist arc_cmd 1 =
     \<lparr>linear_part = linear_part (AngleAxis_UnitZ 1),
      translation = mat_vec (linear_part (AngleAxis_UnitZ 1))
        \<lparr>vec_x = sin 1, vec_y = 1 - cos 1, vec_z = 0\<rparr>\<rparr>"
  by (simp add: integrateTwist_arc arc_cmd_def)

lemma arc_x_differs: "cos 1 * sin 1 - sin 1 * (1 - cos 1) \<noteq> sin (1::real)"
proof
  assume "cos 1 * sin 1 - sin 1 * (1 - cos 1) = sin (1::real)"
  then have "2 * sin 1 * (cos 1 - 1) = (0::real)" by (simp add: algebra_simps)
  with sin1 cos1 show False by simp
qed

text \<open>
  C5. The claim is that the predictor returns, for an angular rate of at least epsilon,
  the planar displacement \<open>(sin angle * radius, radius - cos angle * radius)\<close> with the
  heading change \<open>angle\<close>. For \<^verbatim>\<open>{linear.x = 1.0, angular.z = 1.0}\<close> and a step of 1 s
  the source computes exactly these in \<^verbatim>\<open>int_vec\<close>, but the transform it returns is the
  rotation times the translation, whose displacement is the planar displacement turned
  by \<open>angle\<close>: its x component is not \<open>sin 1\<close>. (For an angular rate below epsilon the
  returned transform is the forward translation the claim states,
  \<open>integrateTwist_straight\<close>.)
\<close>

theorem integrateTwist_arc_displacement_is_rotated:
  "\<not> \<bar>vec_z (twist_angular arc_cmd)\<bar> < 0.0001 \<and>
   int_vec_of arc_cmd 1 = \<lparr>vec_x = sin 1, vec_y = 1 - cos 1, vec_z = 1\<rparr> \<and>
   integrateTwist arc_cmd 1 =
     \<lparr>linear_part = linear_part (AngleAxis_UnitZ 1),
      translation =
        \<lparr>vec_x = cos 1 * sin 1 - sin 1 * (1 - cos 1),
         vec_y = sin 1 * sin 1 + cos 1 * (1 - cos 1),
         vec_z = 0\<rparr>\<rparr> \<and>
   vec_x (translation (integrateTwist arc_cmd 1)) \<noteq> sin 1"
proof -
  have a: "\<not> \<bar>vec_z (twist_angular arc_cmd)\<bar> < 0.0001"
    by (simp add: arc_cmd_def)
  have b: "int_vec_of arc_cmd 1 = \<lparr>vec_x = sin 1, vec_y = 1 - cos 1, vec_z = 1\<rparr>"
    by (simp add: int_vec_of_def arc_cmd_def)
  have c: "integrateTwist arc_cmd 1 =
     \<lparr>linear_part = linear_part (AngleAxis_UnitZ 1),
      translation =
        \<lparr>vec_x = cos 1 * sin 1 - sin 1 * (1 - cos 1),
         vec_y = sin 1 * sin 1 + cos 1 * (1 - cos 1),
         vec_z = 0\<rparr>\<rparr>"
    by (simp add: arc_step mat_vec_def AngleAxis_UnitZ_def)
  have d: "vec_x (translation (integrateTwist arc_cmd 1)) \<noteq> sin 1"
    using arc_x_differs by (simp add: c)
  show ?thesis by (intro conjI a b c d)
qed

text \<open>
  C2. The claim is that the translation of the per-step pose change, in the frame of the
  pose at the start of the step, is \<open>(sin angle * radius, radius - cos angle * radius)\<close>.
  The pose change is composed on the right of the test pose, as claimed, but from the
  identity pose the first predicted pose for \<^verbatim>\<open>{linear.x = 1.0, angular.z = 1.0}\<close> and a
  step of 1 s has another translation: the displacement turned by the angle.
\<close>

theorem arc_roll_out_step_is_not_the_arc:
  "predicted_pose arc_node origin_pose arc_cmd 1 =
     affine_mult (poseMsgToEigen origin_pose) (integrateTwist arc_cmd 1) \<and>
   poseMsgToEigen origin_pose = \<lparr>linear_part = Identity3d, translation = Zero3\<rparr> \<and>
   translation (predicted_pose arc_node origin_pose arc_cmd 1) =
     \<lparr>vec_x = cos 1 * sin 1 - sin 1 * (1 - cos 1),
      vec_y = sin 1 * sin 1 + cos 1 * (1 - cos 1),
      vec_z = 0\<rparr> \<and>
   translation (predicted_pose arc_node origin_pose arc_cmd 1) \<noteq>
     \<lparr>vec_x = sin 1 * 1, vec_y = 1 - cos 1 * 1, vec_z = 0\<rparr>"
proof -
  have st: "p_roll_out_step_time arc_node = 1"
    by (simp add: arc_node_def example_node_def)
  have a: "predicted_pose arc_node origin_pose arc_cmd 1 =
     affine_mult (poseMsgToEigen origin_pose) (integrateTwist arc_cmd 1)"
    by (simp add: predicted_pose_def st)
  have b: "poseMsgToEigen origin_pose = \<lparr>linear_part = Identity3d, translation = Zero3\<rparr>"
    by (simp add: origin Translation3d_def Zero3_def)
  have c: "translation (predicted_pose arc_node origin_pose arc_cmd 1) =
     \<lparr>vec_x = cos 1 * sin 1 - sin 1 * (1 - cos 1),
      vec_y = sin 1 * sin 1 + cos 1 * (1 - cos 1),
      vec_z = 0\<rparr>"
    unfolding a b
    by (simp add: arc_step affine_mult_def mat_vec_def vec_add_def AngleAxis_UnitZ_def
        Identity3d_def Zero3_def)
  have d: "translation (predicted_pose arc_node origin_pose arc_cmd 1) \<noteq>
     \<lparr>vec_x = sin 1 * 1, vec_y = 1 - cos 1 * 1, vec_z = 0\<rparr>"
    unfolding c using arc_x_differs by simp
  show ?thesis by (intro conjI a b c d)
qed

end
